theory Spec2Isabelle
  imports Complex_Main
begin

section \<open>Values, rows and the store\<close>

text \<open>
  The handlers of \<^verbatim>\<open>app/main.py\<close> move JSON scalars between request payloads and
  the attributes of ORM objects. An attribute of a Python object holds any value, so the
  columns of the rows that \<^verbatim>\<open>setattr\<close> and \<^verbatim>\<open>Query.update\<close> write are
  values of the type \<open>val\<close>: null, an integer or a string. Floats, booleans, arrays and
  nested objects are left out of the model.
\<close>

datatype val = VNull | VInt int | VStr string

text \<open>
  A Python integer has no bound, the INTEGER of SQLite, the default store of
  \<^verbatim>\<open>app/database.py\<close>, has 64 bits: the driver refuses to bind a larger one to a
  statement and raises.
\<close>

definition int64 :: "int \<Rightarrow> bool" where
  "int64 n = (- 9223372036854775808 \<le> n \<and> n < 9223372036854775808)"

definition binds :: "val \<Rightarrow> bool" where
  "binds v = (case v of VInt n \<Rightarrow> int64 n | _ \<Rightarrow> True)"

text \<open>
  Modelled from the spec: \<^verbatim>\<open>app/models.py\<close> (the classes UserDB, ProjectDB and
  CourseDB) is not among the sources. The columns are those of section 3 of the
  specification. The attributes of a course are opaque there; the model keeps them as one
  string on which uniqueness is checked.
\<close>

record UserDB =
  u_id :: val
  u_name :: val
  u_email :: val
  u_student_id :: val

record ProjectDB =
  p_id :: val
  p_name :: val
  p_description :: val
  p_owner_id :: val

record CourseDB =
  c_id :: int
  c_fields :: string

text \<open>
  Modelled from the spec: \<^verbatim>\<open>app/schemas.py\<close> is not among the sources. The
  validated request bodies carry the fields that section 3 lists, with the description of
  a project optional.
\<close>

record UserCreate =
  uc_name :: string
  uc_email :: string
  uc_student_id :: string

record ProjectCreate =
  pc_name :: string
  pc_description :: "string option"
  pc_owner_id :: int

record ProjectCreateForUser =
  pf_name :: string
  pf_description :: "string option"

text \<open>
  The store holds the three tables. It also converts what a statement hands it to the
  type of the column: a text in an integer column or beside an integer key becomes the
  integer it spells, when it spells one of 64 bits (\<open>to_integer\<close>), and an integer in a text column
  becomes its text (\<open>to_text\<close>). The two conversions are those of the store and are
  parameters of the model.
\<close>

record store =
  users :: "UserDB list"
  projects :: "ProjectDB list"
  courses :: "CourseDB list"
  to_integer :: "string \<Rightarrow> int option"
  to_text :: "int \<Rightarrow> string"

definition integer_affinity :: "store \<Rightarrow> val \<Rightarrow> val" where
  "integer_affinity s v =
     (case v of
        VStr t \<Rightarrow>
          (case to_integer s t of
             Some n \<Rightarrow> if int64 n then VInt n else VStr t
           | None \<Rightarrow> VStr t)
      | _ \<Rightarrow> v)"

definition text_affinity :: "store \<Rightarrow> val \<Rightarrow> val" where
  "text_affinity s v = (case v of VInt n \<Rightarrow> VStr (to_text s n) | _ \<Rightarrow> v)"

definition is_integer :: "val \<Rightarrow> bool" where
  "is_integer v = (case v of VInt n \<Rightarrow> True | _ \<Rightarrow> False)"

definition opt_val :: "string option \<Rightarrow> val" where
  "opt_val d = (case d of None \<Rightarrow> VNull | Some t \<Rightarrow> VStr t)"

section \<open>Statements and their integrity checks\<close>

datatype db_error =
    IntegrityError
  | OperationalError
  | InvalidRequestError
  | CompileError
  | NameError
  | ValueError
  | OverflowError
  | AttributeError
  | TypeError
  | ResponseValidationError

fun int_keys :: "val list \<Rightarrow> int list" where
  "int_keys [] = []"
| "int_keys (VInt n # ks) = n # int_keys ks"
| "int_keys (_ # ks) = int_keys ks"

text \<open>
  Modelled from the spec: the surrogate key is generated by the store. The model gives a
  new row one more than the largest integer key of its table, and 1 in an empty table.
\<close>

definition next_id :: "val list \<Rightarrow> int" where
  "next_id ks = fold max (int_keys ks) 0 + 1"

text \<open>
  Modelled from the spec: the constraints of section 3, as SQLite enforces them. The
  required columns are not null, the email and the student id of a user are unique, and
  a primary key is a unique integer. The owner of a project is declared a foreign key,
  which \<^verbatim>\<open>app/database.py\<close> does not make the store enforce. Each check is made
  by the statement that writes the value, against the other rows of the table, after the
  value is bound (an integer beyond 64 bits is refused there) and converted.
\<close>

definition user_columns :: "string list" where
  "user_columns = [''id'', ''name'', ''email'', ''student_id'']"

definition project_columns :: "string list" where
  "project_columns = [''id'', ''name'', ''description'', ''owner_id'']"

definition set_user_column :: "UserDB \<Rightarrow> string \<Rightarrow> val \<Rightarrow> UserDB" where
  "set_user_column u c v =
     (if c = ''id'' then u\<lparr>u_id := v\<rparr>
      else if c = ''name'' then u\<lparr>u_name := v\<rparr>
      else if c = ''email'' then u\<lparr>u_email := v\<rparr>
      else if c = ''student_id'' then u\<lparr>u_student_id := v\<rparr>
      else u)"

definition getattr_user :: "UserDB \<Rightarrow> string \<Rightarrow> val" where
  "getattr_user u c =
     (if c = ''id'' then u_id u
      else if c = ''name'' then u_name u
      else if c = ''email'' then u_email u
      else if c = ''student_id'' then u_student_id u
      else VNull)"

definition set_project_column :: "ProjectDB \<Rightarrow> string \<Rightarrow> val \<Rightarrow> ProjectDB" where
  "set_project_column proj c v =
     (if c = ''id'' then proj\<lparr>p_id := v\<rparr>
      else if c = ''name'' then proj\<lparr>p_name := v\<rparr>
      else if c = ''description'' then proj\<lparr>p_description := v\<rparr>
      else if c = ''owner_id'' then proj\<lparr>p_owner_id := v\<rparr>
      else proj)"

definition getattr_project :: "ProjectDB \<Rightarrow> string \<Rightarrow> val" where
  "getattr_project proj c =
     (if c = ''id'' then p_id proj
      else if c = ''name'' then p_name proj
      else if c = ''description'' then p_description proj
      else if c = ''owner_id'' then p_owner_id proj
      else VNull)"

text \<open>What the store keeps of a value written to a column of a user or of a project.\<close>

definition user_affinity :: "store \<Rightarrow> string \<Rightarrow> val \<Rightarrow> val" where
  "user_affinity s c v = (if c = ''id'' then integer_affinity s v else text_affinity s v)"

definition project_affinity :: "store \<Rightarrow> string \<Rightarrow> val \<Rightarrow> val" where
  "project_affinity s c v =
     (if c = ''id'' \<or> c = ''owner_id'' then integer_affinity s v else text_affinity s v)"

text \<open>
  Whether the stored value \<open>v\<close> breaks a constraint of column \<open>c\<close>, the other rows of
  the table being \<open>others\<close>.
\<close>

definition user_column_violation :: "UserDB list \<Rightarrow> string \<Rightarrow> val \<Rightarrow> bool" where
  "user_column_violation others c v =
     (if c = ''id'' then \<not> is_integer v \<or> v \<in> set (map u_id others)
      else if c = ''email'' then v = VNull \<or> v \<in> set (map u_email others)
      else if c = ''student_id'' then v = VNull \<or> v \<in> set (map u_student_id others)
      else v = VNull)"

definition project_column_violation :: "ProjectDB list \<Rightarrow> string \<Rightarrow> val \<Rightarrow> bool" where
  "project_column_violation others c v =
     (if c = ''id'' then \<not> is_integer v \<or> v \<in> set (map p_id others)
      else if c = ''description'' then False
      else v = VNull)"

text \<open>
  What a statement leaves in a row: each value, converted to the type of its column.
\<close>

definition write_project :: "store \<Rightarrow> (string \<times> val) list \<Rightarrow> ProjectDB \<Rightarrow> ProjectDB" where
  "write_project s changes q =
     fold (\<lambda>(c, v) r. set_project_column r c (project_affinity s c v)) changes q"

definition write_user :: "store \<Rightarrow> (string \<times> val) list \<Rightarrow> UserDB \<Rightarrow> UserDB" where
  "write_user s vals u = fold (\<lambda>(c, v) r. set_user_column r c (user_affinity s c v)) vals u"

definition insert_user :: "store \<Rightarrow> UserDB \<Rightarrow> db_error + store \<times> val" where
  "insert_user s u =
     (let new = [(''name'', u_name u), (''email'', u_email u), (''student_id'', u_student_id u)];
          row = write_user s new (u\<lparr>u_id := VInt (next_id (map u_id (users s)))\<rparr>)
      in if list_ex (\<lambda>(c, v). \<not> binds v) new then Inl OverflowError
         else if list_ex (\<lambda>(c, v). user_column_violation (users s) c (user_affinity s c v)) new
           then Inl IntegrityError
         else Inr (s\<lparr>users := users s @ [row]\<rparr>, u_id row))"

definition insert_project :: "store \<Rightarrow> ProjectDB \<Rightarrow> db_error + store \<times> val" where
  "insert_project s p =
     (let new = [(''name'', p_name p), (''description'', p_description p),
                 (''owner_id'', p_owner_id p)];
          row = write_project s new (p\<lparr>p_id := VInt (next_id (map p_id (projects s)))\<rparr>)
      in if list_ex (\<lambda>(c, v). \<not> binds v) new then Inl OverflowError
         else if list_ex (\<lambda>(c, v). project_column_violation (projects s) c
                                      (project_affinity s c v)) new
           then Inl IntegrityError
         else Inr (s\<lparr>projects := projects s @ [row]\<rparr>, p_id row))"

definition insert_course :: "store \<Rightarrow> string \<Rightarrow> db_error + store \<times> val" where
  "insert_course s attrs =
     (let row = \<lparr>c_id = next_id (map (\<lambda>c. VInt (c_id c)) (courses s)), c_fields = attrs\<rparr>
      in if attrs \<in> set (map c_fields (courses s)) then Inl IntegrityError
         else Inr (s\<lparr>courses := courses s @ [row]\<rparr>, VInt (c_id row)))"

text \<open>
  The UPDATE that a flush emits for a changed project: \<open>changes\<close> are the columns whose
  value differs from the loaded one, \<open>pk\<close> is the key the object was loaded with. Without
  a change there is no statement.
\<close>

definition update_project_row ::
  "store \<Rightarrow> val \<Rightarrow> (string \<times> val) list \<Rightarrow> db_error + store" where
  "update_project_row s pk changes =
     (let others = filter (\<lambda>q. p_id q \<noteq> pk) (projects s)
      in if changes = [] then Inr s
         else if \<not> binds pk \<or> list_ex (\<lambda>(c, v). \<not> binds v) changes then Inl OverflowError
         else if list_ex (\<lambda>(c, v). project_column_violation others c (project_affinity s c v))
                   changes
           then Inl IntegrityError
         else Inr (s\<lparr>projects :=
                        map (\<lambda>q. if p_id q = pk then write_project s changes q else q)
                          (projects s)\<rparr>))"

definition delete_project_row :: "store \<Rightarrow> val \<Rightarrow> store" where
  "delete_project_row s pk = s\<lparr>projects := filter (\<lambda>q. p_id q \<noteq> pk) (projects s)\<rparr>"

text \<open>
  Modelled from the spec: the relationship from a user to its projects cascades a
  deletion (\<^verbatim>\<open>cascade="all, delete-orphan"\<close>, as the comment in
  \<^verbatim>\<open>delete_user\<close> has it). The flush deletes the projects of the user, then the
  user.
\<close>

definition delete_user_row :: "store \<Rightarrow> UserDB \<Rightarrow> store" where
  "delete_user_row s u =
     s\<lparr>projects := filter (\<lambda>p. p_owner_id p \<noteq> u_id u) (projects s),
       users := filter (\<lambda>v. u_id v \<noteq> u_id u) (users s)\<rparr>"

section \<open>The session\<close>

text \<open>
  A session of \<^verbatim>\<open>SessionLocal\<close> (autoflush off) holds the changes made through
  ORM objects until \<^verbatim>\<open>commit\<close> flushes them. \<open>durable\<close> is the committed
  content of the store, \<open>txn\<close> the content seen inside the open transaction,
  \<open>pending\<close> the unit of work, and \<open>inserted\<close> the keys that the last flush gave to
  the objects it inserted (the ORM writes them into those objects).
\<close>

datatype op =
    Insert_user UserDB
  | Insert_project ProjectDB
  | Insert_course string
  | Update_project val "(string \<times> val) list"
  | Delete_project val
  | Delete_user UserDB

record session =
  durable :: store
  txn :: store
  pending :: "op list"
  inserted :: "val list"

definition SessionLocal :: "store \<Rightarrow> session" where
  "SessionLocal s = \<lparr>durable = s, txn = s, pending = [], inserted = []\<rparr>"

definition add :: "session \<Rightarrow> op \<Rightarrow> session" where
  "add db x = db\<lparr>pending := pending db @ [x]\<rparr>"

fun apply_op :: "op \<Rightarrow> store \<times> val list \<Rightarrow> db_error + store \<times> val list" where
  "apply_op (Insert_user u) (s, ks) =
     (case insert_user s u of Inl e \<Rightarrow> Inl e | Inr (s', k) \<Rightarrow> Inr (s', ks @ [k]))"
| "apply_op (Insert_project p) (s, ks) =
     (case insert_project s p of Inl e \<Rightarrow> Inl e | Inr (s', k) \<Rightarrow> Inr (s', ks @ [k]))"
| "apply_op (Insert_course f) (s, ks) =
     (case insert_course s f of Inl e \<Rightarrow> Inl e | Inr (s', k) \<Rightarrow> Inr (s', ks @ [k]))"
| "apply_op (Update_project pk changes) (s, ks) =
     (case update_project_row s pk changes of Inl e \<Rightarrow> Inl e | Inr s' \<Rightarrow> Inr (s', ks))"
| "apply_op (Delete_project pk) (s, ks) = Inr (delete_project_row s pk, ks)"
| "apply_op (Delete_user u) (s, ks) = Inr (delete_user_row s u, ks)"

fun flush :: "op list \<Rightarrow> store \<times> val list \<Rightarrow> db_error + store \<times> val list" where
  "flush [] st = Inr st"
| "flush (x # xs) st = (case apply_op x st of Inl e \<Rightarrow> Inl e | Inr st' \<Rightarrow> flush xs st')"

definition commit :: "session \<Rightarrow> db_error + session" where
  "commit db =
     (case flush (pending db) (txn db, []) of
        Inl e \<Rightarrow> Inl e
      | Inr (s, ks) \<Rightarrow> Inr \<lparr>durable = s, txn = s, pending = [], inserted = ks\<rparr>)"

definition rollback :: "session \<Rightarrow> session" where
  "rollback db = \<lparr>durable = durable db, txn = durable db, pending = [], inserted = []\<rparr>"

text \<open>
  \<^verbatim>\<open>db.get(cls, key)\<close> selects by primary key: the key is bound to the statement,
  which raises for an integer beyond 64 bits, and compared with the integer keys of the
  table as an integer. A null key finds nothing.
\<close>

definition get_UserDB :: "session \<Rightarrow> val \<Rightarrow> db_error + UserDB option" where
  "get_UserDB db k =
     (if \<not> binds k then Inl OverflowError
      else if k = VNull then Inr None
      else Inr (find (\<lambda>u. u_id u = integer_affinity (txn db) k) (users (txn db))))"

definition get_ProjectDB :: "session \<Rightarrow> val \<Rightarrow> db_error + ProjectDB option" where
  "get_ProjectDB db k =
     (if \<not> binds k then Inl OverflowError
      else if k = VNull then Inr None
      else Inr (find (\<lambda>p. p_id p = integer_affinity (txn db) k) (projects (txn db))))"

definition get_CourseDB :: "session \<Rightarrow> val \<Rightarrow> db_error + CourseDB option" where
  "get_CourseDB db k =
     (if \<not> binds k then Inl OverflowError
      else if k = VNull then Inr None
      else Inr (find (\<lambda>c. VInt (c_id c) = integer_affinity (txn db) k) (courses (txn db))))"

section \<open>Errors and the commit helper\<close>

datatype error = HTTPException nat string | Unhandled db_error

definition commit_or_rollback :: "session \<Rightarrow> string \<Rightarrow> session \<times> (error + unit)" where
  "commit_or_rollback db error_msg =
     (case commit db of
        Inr db' \<Rightarrow> (db', Inr ())
      | Inl IntegrityError \<Rightarrow> (rollback db, Inl (HTTPException 409 error_msg))
      | Inl e \<Rightarrow> (db, Inl (Unhandled e)))"

text \<open>
  \<^verbatim>\<open>db.refresh(obj)\<close> after a commit reads the row of the object back by its
  primary key; for an object that the flush inserted, that key is the generated one. It
  raises when the row is not there.
\<close>

definition new_key :: "session \<Rightarrow> val" where
  "new_key db = (case inserted db of [] \<Rightarrow> VNull | k # _ \<Rightarrow> k)"

definition refresh_UserDB :: "session \<Rightarrow> val \<Rightarrow> db_error + UserDB" where
  "refresh_UserDB db k =
     (case get_UserDB db k of
        Inl e \<Rightarrow> Inl e
      | Inr None \<Rightarrow> Inl InvalidRequestError
      | Inr (Some row) \<Rightarrow> Inr row)"

definition refresh_ProjectDB :: "session \<Rightarrow> val \<Rightarrow> db_error + ProjectDB" where
  "refresh_ProjectDB db k =
     (case get_ProjectDB db k of
        Inl e \<Rightarrow> Inl e
      | Inr None \<Rightarrow> Inl InvalidRequestError
      | Inr (Some row) \<Rightarrow> Inr row)"

definition refresh_CourseDB :: "session \<Rightarrow> val \<Rightarrow> db_error + CourseDB" where
  "refresh_CourseDB db k =
     (case get_CourseDB db k of
        Inl e \<Rightarrow> Inl e
      | Inr None \<Rightarrow> Inl InvalidRequestError
      | Inr (Some row) \<Rightarrow> Inr row)"

text \<open>What a rollback leaves of a session \<open>db\<close>: its committed store, and nothing else.\<close>

definition rolled_back :: "session \<Rightarrow> session \<Rightarrow> bool" where
  "rolled_back db db' = (durable db' = durable db \<and> txn db' = durable db \<and> pending db' = [])"

section \<open>Course handlers\<close>

text \<open>A response is the status code of the route with the body that the handler returns.\<close>

definition create_course :: "session \<Rightarrow> string \<Rightarrow> session \<times> (error + nat \<times> CourseDB)" where
  "create_course db course =
     (let db1 = add db (Insert_course course)
      in case commit_or_rollback db1 ''Course already exists'' of
           (db2, Inl e) \<Rightarrow> (db2, Inl e)
         | (db2, Inr _) \<Rightarrow>
             (case refresh_CourseDB db2 (new_key db2) of
                Inl e \<Rightarrow> (db2, Inl (Unhandled e))
              | Inr db_course \<Rightarrow> (db2, Inr (201, db_course))))"

text \<open>
  The query parameters are optional integers with the defaults 10 and 0, and nothing
  keeps them in a range. Both are bound to the statement, which raises for an integer
  beyond 64 bits. For the store, SQLite, a negative LIMIT is no bound and a negative
  OFFSET skips nothing.
\<close>

definition list_courses ::
  "session \<Rightarrow> int option \<Rightarrow> int option \<Rightarrow> session \<times> (error + nat \<times> CourseDB list)" where
  "list_courses db limit_q offset_q =
     (let limit = (case limit_q of None \<Rightarrow> 10 | Some n \<Rightarrow> n);
          offset = (case offset_q of None \<Rightarrow> 0 | Some n \<Rightarrow> n);
          ordered = sort_key c_id (courses (txn db));
          skipped = drop (nat offset) ordered
      in if \<not> int64 limit \<or> \<not> int64 offset then (db, Inl (Unhandled OverflowError))
         else (db, Inr (200, if limit < 0 then skipped else take (nat limit) skipped)))"

section \<open>Project handlers\<close>

definition create_project ::
  "session \<Rightarrow> ProjectCreate \<Rightarrow> session \<times> (error + nat \<times> ProjectDB)" where
  "create_project db project =
     (case get_UserDB db (VInt (pc_owner_id project)) of
        Inl e \<Rightarrow> (db, Inl (Unhandled e))
      | Inr None \<Rightarrow> (db, Inl (HTTPException 404 ''User not found''))
      | Inr (Some user) \<Rightarrow>
          (let proj = \<lparr>p_id = VNull, p_name = VStr (pc_name project),
                       p_description = opt_val (pc_description project),
                       p_owner_id = VInt (pc_owner_id project)\<rparr>;
               db1 = add db (Insert_project proj)
           in case commit_or_rollback db1 ''Project creation failed'' of
                (db2, Inl e) \<Rightarrow> (db2, Inl e)
              | (db2, Inr _) \<Rightarrow>
                  (case refresh_ProjectDB db2 (new_key db2) of
                     Inl e \<Rightarrow> (db2, Inl (Unhandled e))
                   | Inr row \<Rightarrow> (db2, Inr (201, row)))))"

text \<open>\<^verbatim>\<open>project.model_dump()\<close>: the fields of the validated body, in their order.\<close>

definition model_dump_project :: "ProjectCreate \<Rightarrow> (string \<times> val) list" where
  "model_dump_project project =
     [(''name'', VStr (pc_name project)),
      (''description'', opt_val (pc_description project)),
      (''owner_id'', VInt (pc_owner_id project))]"

text \<open>
  Assigning to a column of a loaded object marks it dirty. At the flush the session
  compares the object with what it loaded and writes the columns that differ.
\<close>

definition changed :: "ProjectDB \<Rightarrow> ProjectDB \<Rightarrow> (string \<times> val) list" where
  "changed loaded proj =
     filter (\<lambda>(c, v). getattr_project loaded c \<noteq> v)
       (map (\<lambda>c. (c, getattr_project proj c)) project_columns)"

definition update_project ::
  "session \<Rightarrow> int \<Rightarrow> ProjectCreate \<Rightarrow> session \<times> (error + nat \<times> ProjectDB)" where
  "update_project db project_id project =
     (case get_ProjectDB db (VInt project_id) of
        Inl e \<Rightarrow> (db, Inl (Unhandled e))
      | Inr None \<Rightarrow> (db, Inl (HTTPException 404 ''Project not found''))
      | Inr (Some proj) \<Rightarrow>
          (case get_UserDB db (VInt (pc_owner_id project)) of
             Inl e \<Rightarrow> (db, Inl (Unhandled e))
           | Inr None \<Rightarrow> (db, Inl (HTTPException 404 ''Owner user not found''))
           | Inr (Some owner) \<Rightarrow>
               (let proj' = fold (\<lambda>(field, v) q. set_project_column q field v)
                              (model_dump_project project) proj;
                    db1 = add db (Update_project (p_id proj) (changed proj proj'))
                in case commit_or_rollback db1 ''Project update failed'' of
                     (db2, Inl e) \<Rightarrow> (db2, Inl e)
                   | (db2, Inr _) \<Rightarrow>
                       (case refresh_ProjectDB db2 (p_id proj') of
                          Inl e \<Rightarrow> (db2, Inl (Unhandled e))
                        | Inr row \<Rightarrow> (db2, Inr (200, row))))))"

text \<open>
  \<^verbatim>\<open>hasattr(proj, field)\<close> is true for more than the columns: for the
  relationship \<^verbatim>\<open>owner\<close>, which \<^verbatim>\<open>get_project_with_owner\<close> loads, and for
  what the class inherits (\<^verbatim>\<open>__class__\<close>, \<^verbatim>\<open>__dict__\<close>, \<^verbatim>\<open>metadata\<close> and
  so on). The class is not among the sources, so what it inherits is a parameter
  \<open>base\<close> of the model: for a name, nothing when the object has no such attribute, and
  otherwise whether an assignment is accepted as a plain attribute, without effect on the
  row, or raises.
\<close>

datatype inherited = Plain | Raises db_error

definition hasattr_project :: "(string \<Rightarrow> inherited option) \<Rightarrow> string \<Rightarrow> bool" where
  "hasattr_project base field =
     (field \<in> set project_columns \<or> field = ''owner'' \<or> base field \<noteq> None)"

text \<open>
  Modelled from the spec: the object is the row and whether it has lost its owner.
  Assigning null to \<^verbatim>\<open>owner\<close> takes the project out of the projects of its user,
  which makes it an orphan that the flush deletes; assigning a JSON scalar to it raises.
\<close>

definition setattr_project ::
  "(string \<Rightarrow> inherited option) \<Rightarrow> ProjectDB \<times> bool \<Rightarrow> string \<Rightarrow> val
     \<Rightarrow> db_error + ProjectDB \<times> bool" where
  "setattr_project base obj field v =
     (if field \<in> set project_columns then Inr (set_project_column (fst obj) field v, snd obj)
      else if field = ''owner'' then (if v = VNull then Inr (fst obj, True) else Inl AttributeError)
      else (case base field of Some (Raises e) \<Rightarrow> Inl e | _ \<Rightarrow> Inr obj))"

text \<open>
  The body of a PATCH is a dict: here a list of pairs in the order of the dict, with
  distinct keys. The loop of \<^verbatim>\<open>patch_project\<close> over its items:
\<close>

fun patch_loop ::
  "(string \<Rightarrow> inherited option) \<Rightarrow> (string \<times> val) list \<Rightarrow> ProjectDB \<times> bool
     \<Rightarrow> db_error + ProjectDB \<times> bool" where
  "patch_loop base [] obj = Inr obj"
| "patch_loop base ((field, v) # items) obj =
     (if hasattr_project base field
      then (case setattr_project base obj field v of
              Inl e \<Rightarrow> Inl e
            | Inr obj' \<Rightarrow> patch_loop base items obj')
      else patch_loop base items obj)"

text \<open>
  What the session holds for the object when the commit comes. An object that the flush
  has deleted is no longer in the session, and refreshing it raises.
\<close>

definition dirty :: "ProjectDB \<Rightarrow> ProjectDB \<times> bool \<Rightarrow> op" where
  "dirty loaded obj =
     (if snd obj then Delete_project (p_id loaded)
      else Update_project (p_id loaded) (changed loaded (fst obj)))"

text \<open>The check of the owner, made when the body has the key \<^verbatim>\<open>owner_id\<close>.\<close>

definition owner_check :: "session \<Rightarrow> (string \<times> val) list \<Rightarrow> error option" where
  "owner_check db partial_project =
     (case map_of partial_project ''owner_id'' of
        None \<Rightarrow> None
      | Some k \<Rightarrow>
          (case get_UserDB db k of
             Inl e \<Rightarrow> Some (Unhandled e)
           | Inr None \<Rightarrow> Some (HTTPException 404 ''Owner user not found'')
           | Inr (Some owner) \<Rightarrow> None))"

definition patch_project ::
  "(string \<Rightarrow> inherited option) \<Rightarrow> session \<Rightarrow> int \<Rightarrow> (string \<times> val) list
     \<Rightarrow> session \<times> (error + nat \<times> ProjectDB)" where
  "patch_project base db project_id partial_project =
     (case get_ProjectDB db (VInt project_id) of
        Inl e \<Rightarrow> (db, Inl (Unhandled e))
      | Inr None \<Rightarrow> (db, Inl (HTTPException 404 ''Project not found''))
      | Inr (Some proj) \<Rightarrow>
          (case owner_check db partial_project of
             Some e \<Rightarrow> (db, Inl e)
           | None \<Rightarrow>
               (case patch_loop base partial_project (proj, False) of
                  Inl e \<Rightarrow> (db, Inl (Unhandled e))
                | Inr obj \<Rightarrow>
                    (let db1 = add db (dirty proj obj)
                     in case commit_or_rollback db1 ''Project partial update failed'' of
                          (db2, Inl e) \<Rightarrow> (db2, Inl e)
                        | (db2, Inr _) \<Rightarrow>
                            (if snd obj then (db2, Inl (Unhandled InvalidRequestError))
                             else case refresh_ProjectDB db2 (p_id (fst obj)) of
                                    Inl e \<Rightarrow> (db2, Inl (Unhandled e))
                                  | Inr row \<Rightarrow> (db2, Inr (200, row)))))))"

text \<open>The filter of the query is bound like a key.\<close>

definition get_user_projects ::
  "session \<Rightarrow> int \<Rightarrow> session \<times> (error + nat \<times> ProjectDB list)" where
  "get_user_projects db user_id =
     (if \<not> int64 user_id then (db, Inl (Unhandled OverflowError))
      else
        (let rows = filter (\<lambda>p. p_owner_id p = VInt user_id) (projects (txn db))
         in (db, Inr (200, rows))))"

definition create_user_project ::
  "session \<Rightarrow> int \<Rightarrow> ProjectCreateForUser \<Rightarrow> session \<times> (error + nat \<times> ProjectDB)" where
  "create_user_project db user_id project =
     (case get_UserDB db (VInt user_id) of
        Inl e \<Rightarrow> (db, Inl (Unhandled e))
      | Inr None \<Rightarrow> (db, Inl (HTTPException 404 ''User not found''))
      | Inr (Some user) \<Rightarrow>
          (let proj = \<lparr>p_id = VNull, p_name = VStr (pf_name project),
                       p_description = opt_val (pf_description project),
                       p_owner_id = VInt user_id\<rparr>;
               db1 = add db (Insert_project proj)
           in case commit_or_rollback db1 ''Project creation failed'' of
                (db2, Inl e) \<Rightarrow> (db2, Inl e)
              | (db2, Inr _) \<Rightarrow>
                  (case refresh_ProjectDB db2 (new_key db2) of
                     Inl e \<Rightarrow> (db2, Inl (Unhandled e))
                   | Inr row \<Rightarrow> (db2, Inr (201, row)))))"

section \<open>User handlers\<close>

text \<open>
  \<^verbatim>\<open>Query.update\<close> takes a dict from column names to values and runs one UPDATE at
  once, inside the transaction, on the rows that the filter selects. A key that names no
  column of the entity cannot be compiled into the statement and a dict without keys
  leaves it without a SET clause: the call raises in both cases, before any row is
  touched. Then the values are bound and the checks of the store are made as the
  statement runs, so what they raise is raised by the call itself.
\<close>

definition query_update_users ::
  "session \<Rightarrow> int \<Rightarrow> (string \<times> val) list \<Rightarrow> db_error + session \<times> nat" where
  "query_update_users db user_id vals =
     (if list_ex (\<lambda>(c, v). c \<notin> set user_columns) vals then Inl CompileError
      else if vals = [] then Inl OperationalError
      else if \<not> int64 user_id \<or> list_ex (\<lambda>(c, v). \<not> binds v) vals then Inl OverflowError
      else
        (let s = txn db;
             matched = filter (\<lambda>u. u_id u = VInt user_id) (users s);
             others = filter (\<lambda>u. u_id u \<noteq> VInt user_id) (users s);
             table = map (\<lambda>u. if u_id u = VInt user_id then write_user s vals u else u) (users s)
         in if matched \<noteq> []
               \<and> list_ex (\<lambda>(c, v). user_column_violation others c (user_affinity s c v)) vals
            then Inl IntegrityError
            else Inr (db\<lparr>txn := s\<lparr>users := table\<rparr>\<rparr>, length matched)))"

definition add_user :: "session \<Rightarrow> UserCreate \<Rightarrow> session \<times> (error + nat \<times> UserDB)" where
  "add_user db payload =
     (let user = \<lparr>u_id = VNull, u_name = VStr (uc_name payload),
                  u_email = VStr (uc_email payload),
                  u_student_id = VStr (uc_student_id payload)\<rparr>;
          db1 = add db (Insert_user user)
      in case commit db1 of
           Inl IntegrityError \<Rightarrow> (rollback db1, Inl (HTTPException 409 ''User already exists''))
         | Inl e \<Rightarrow> (db1, Inl (Unhandled e))
         | Inr db2 \<Rightarrow>
             (case refresh_UserDB db2 (new_key db2) of
                Inl IntegrityError \<Rightarrow>
                  (rollback db2, Inl (HTTPException 409 ''User already exists''))
              | Inl e \<Rightarrow> (db2, Inl (Unhandled e))
              | Inr row \<Rightarrow> (db2, Inr (201, row))))"

text \<open>The commit of \<^verbatim>\<open>delete_user\<close> is a bare one: what it raises is not caught.\<close>

definition delete_user :: "session \<Rightarrow> int \<Rightarrow> session \<times> (error + nat \<times> unit)" where
  "delete_user db user_id =
     (case get_UserDB db (VInt user_id) of
        Inl e \<Rightarrow> (db, Inl (Unhandled e))
      | Inr None \<Rightarrow> (db, Inl (HTTPException 404 ''User not found''))
      | Inr (Some user) \<Rightarrow>
          (let db1 = add db (Delete_user user)
           in case commit db1 of
                Inl e \<Rightarrow> (db1, Inl (Unhandled e))
              | Inr db2 \<Rightarrow> (db2, Inr (204, ()))))"

definition model_dump_user :: "UserCreate \<Rightarrow> (string \<times> val) list" where
  "model_dump_user payload =
     [(''name'', VStr (uc_name payload)),
      (''email'', VStr (uc_email payload)),
      (''student_id'', VStr (uc_student_id payload))]"

text \<open>
  Both handlers return what \<^verbatim>\<open>db.get\<close> finds under the id of the path after the
  commit; when that is nothing, the response model of the route rejects it.
\<close>

definition update_user ::
  "session \<Rightarrow> int \<Rightarrow> UserCreate \<Rightarrow> session \<times> (error + nat \<times> UserDB)" where
  "update_user db user_id updated_user =
     (case query_update_users db user_id (model_dump_user updated_user) of
        Inl e \<Rightarrow> (db, Inl (Unhandled e))
      | Inr (db1, result) \<Rightarrow>
          (if result = 0 then (db1, Inl (HTTPException 404 ''User not found''))
           else case commit_or_rollback db1 ''User update failed (duplicate email or student_id)'' of
                  (db2, Inl e) \<Rightarrow> (db2, Inl e)
                | (db2, Inr _) \<Rightarrow>
                    (case get_UserDB db2 (VInt user_id) of
                       Inl e \<Rightarrow> (db2, Inl (Unhandled e))
                     | Inr None \<Rightarrow> (db2, Inl (Unhandled ResponseValidationError))
                     | Inr (Some user) \<Rightarrow> (db2, Inr (200, user)))))"

definition patch_user ::
  "session \<Rightarrow> int \<Rightarrow> (string \<times> val) list \<Rightarrow> session \<times> (error + nat \<times> UserDB)" where
  "patch_user db user_id partial_user =
     (case query_update_users db user_id partial_user of
        Inl e \<Rightarrow> (db, Inl (Unhandled e))
      | Inr (db1, result) \<Rightarrow>
          (if result = 0 then (db1, Inl (HTTPException 404 ''User not found''))
           else case commit_or_rollback db1 ''User partial update failed'' of
                  (db2, Inl e) \<Rightarrow> (db2, Inl e)
                | (db2, Inr _) \<Rightarrow>
                    (case get_UserDB db2 (VInt user_id) of
                       Inl e \<Rightarrow> (db2, Inl (Unhandled e))
                     | Inr None \<Rightarrow> (db2, Inl (Unhandled ResponseValidationError))
                     | Inr (Some user) \<Rightarrow> (db2, Inr (200, user)))))"


section \<open>Start of the process\<close>

text \<open>
  \<^verbatim>\<open>app/database.py\<close> runs its retry loop when the module is imported. The outcome
  of the \<open>k\<close>-th connection that the process opens is \<open>reachable k\<close>. The loop binds
  \<^verbatim>\<open>engine\<close> before it tries the connection, catches the connection error of every
  round, the last one too, and sleeps after it. The sleep raises inside the handler, and
  so out of the loop, when the delay does not fit the clock of 64 bits of nanoseconds
  or is negative. The delay is a float in the code and a real here, so the bound of the
  clock is exact up to the rounding of the float. After the loop the session factory
  reads \<^verbatim>\<open>engine\<close>, which is unbound when the loop made no round.
\<close>

datatype event = Connect nat | Sleep real

record boot =
  engine :: "nat option"
  attempts :: nat
  events :: "event list"

definition RETRIES :: "int option \<Rightarrow> int" where
  "RETRIES env = (case env of None \<Rightarrow> 10 | Some n \<Rightarrow> n)"

definition DELAY :: "real option \<Rightarrow> real" where
  "DELAY env = (case env of None \<Rightarrow> 3 / 2 | Some d \<Rightarrow> d)"

definition sleep :: "real \<Rightarrow> db_error option" where
  "sleep secs =
     (if secs * 1000000000 < - 9223372036854775808 \<or> 9223372036854775808 \<le> secs * 1000000000
      then Some OverflowError
      else if secs < 0 then Some ValueError
      else None)"

fun retry_loop :: "nat \<Rightarrow> real \<Rightarrow> (nat \<Rightarrow> bool) \<Rightarrow> boot \<Rightarrow> db_error + boot" where
  "retry_loop 0 delay reachable b = Inr b"
| "retry_loop (Suc n) delay reachable b =
     (let k = attempts b;
          b1 = b\<lparr>engine := Some k, attempts := Suc k, events := events b @ [Connect k]\<rparr>
      in if reachable k then Inr b1
         else (case sleep delay of
                 Some e \<Rightarrow> Inl e
               | None \<Rightarrow> retry_loop n delay reachable (b1\<lparr>events := events b1 @ [Sleep delay]\<rparr>)))"

definition database_module ::
  "int option \<Rightarrow> real option \<Rightarrow> (nat \<Rightarrow> bool) \<Rightarrow> db_error + boot" where
  "database_module retries_env delay_env reachable =
     (case retry_loop (nat (RETRIES retries_env)) (DELAY delay_env) reachable
             \<lparr>engine = None, attempts = 0, events = []\<rparr> of
        Inl e \<Rightarrow> Inl e
      | Inr b \<Rightarrow> (case engine b of None \<Rightarrow> Inl NameError | Some _ \<Rightarrow> Inr b))"

text \<open>
  \<^verbatim>\<open>lifespan\<close> of \<^verbatim>\<open>app/main.py\<close> creates the tables through the engine before
  the first request: one more connection, whose error nothing catches.
\<close>

definition lifespan :: "(nat \<Rightarrow> bool) \<Rightarrow> boot \<Rightarrow> db_error + boot" where
  "lifespan reachable b =
     (let k = attempts b;
          b1 = b\<lparr>attempts := Suc k, events := events b @ [Connect k]\<rparr>
      in if reachable k then Inr b1 else Inl OperationalError)"

definition startup :: "int option \<Rightarrow> real option \<Rightarrow> (nat \<Rightarrow> bool) \<Rightarrow> db_error + boot" where
  "startup retries_env delay_env reachable =
     (case database_module retries_env delay_env reachable of
        Inl e \<Rightarrow> Inl e
      | Inr b \<Rightarrow> lifespan reachable b)"

text \<open>A store that refuses the first \<open>n\<close> connections and accepts every later one.\<close>

definition up_from :: "nat \<Rightarrow> nat \<Rightarrow> bool" where
  "up_from n k = (n \<le> k)"

text \<open>
  The number of connections of the loop that fail before one succeeds, at most \<open>n\<close>.
\<close>

definition failures :: "nat \<Rightarrow> (nat \<Rightarrow> bool) \<Rightarrow> nat" where
  "failures n reachable = length (takeWhile (\<lambda>k. \<not> reachable k) [0..<n])"

section \<open>A small store for the examples\<close>

text \<open>
  The conversions of the example store, for the texts that are plain decimal numerals.
\<close>

definition digit :: "char \<Rightarrow> nat option" where
  "digit c = (let n = (of_char c :: nat) in if 48 \<le> n \<and> n \<le> 57 then Some (n - 48) else None)"

fun decimal :: "string \<Rightarrow> nat \<Rightarrow> nat option" where
  "decimal [] acc = Some acc"
| "decimal (c # cs) acc = (case digit c of None \<Rightarrow> None | Some d \<Rightarrow> decimal cs (10 * acc + d))"

definition plain_integer :: "string \<Rightarrow> int option" where
  "plain_integer t =
     (case t of
        [] \<Rightarrow> None
      | c # cs \<Rightarrow>
          if c = CHR ''-'' then (if cs = [] then None else map_option (\<lambda>n. - int n) (decimal cs 0))
          else map_option int (decimal t 0))"

fun digits_of :: "nat \<Rightarrow> string" where
  "digits_of n =
     (if n < 10 then [char_of (48 + n)] else digits_of (n div 10) @ [char_of (48 + n mod 10)])"

definition plain_text :: "int \<Rightarrow> string" where
  "plain_text n = (if n < 0 then CHR ''-'' # digits_of (nat (- n)) else digits_of (nat n))"

text \<open>An example of what a class inherits from a declarative base.\<close>

definition declarative_base :: "string \<Rightarrow> inherited option" where
  "declarative_base name =
     (if name \<in> set [''__class__'', ''__dict__''] then Some (Raises TypeError)
      else if name \<in> set [''metadata'', ''registry''] then Some Plain
      else None)"

definition ann :: UserDB where
  "ann = \<lparr>u_id = VInt 1, u_name = VStr ''Ann'', u_email = VStr ''a@x.com'',
          u_student_id = VStr ''S1''\<rparr>"

definition bob :: UserDB where
  "bob = \<lparr>u_id = VInt 2, u_name = VStr ''Bob'', u_email = VStr ''b@x.com'',
          u_student_id = VStr ''S2''\<rparr>"

definition proj_a :: ProjectDB where
  "proj_a = \<lparr>p_id = VInt 1, p_name = VStr ''A'', p_description = VStr ''B'',
             p_owner_id = VInt 1\<rparr>"

definition proj_b :: ProjectDB where
  "proj_b = \<lparr>p_id = VInt 2, p_name = VStr ''Thesis'', p_description = VNull,
             p_owner_id = VInt 2\<rparr>"

definition proj_c :: ProjectDB where
  "proj_c = \<lparr>p_id = VInt 3, p_name = VStr ''Lab'', p_description = VStr ''week 5'',
             p_owner_id = VInt 1\<rparr>"

definition course :: "int \<Rightarrow> CourseDB" where
  "course n = \<lparr>c_id = n, c_fields = replicate (nat n) (CHR ''c'')\<rparr>"

definition fifteen :: "CourseDB list" where
  "fifteen = map course [8, 3, 15, 1, 12, 6, 10, 2, 14, 5, 9, 13, 4, 11, 7]"

definition campus :: store where
  "campus = \<lparr>users = [ann, bob], projects = [proj_a, proj_b, proj_c], courses = fifteen,
             to_integer = plain_integer, to_text = plain_text\<rparr>"

section \<open>Facts about the session\<close>

lemma rollback_simps [simp]:
  "durable (rollback db) = durable db" "txn (rollback db) = durable db"
  "pending (rollback db) = []" "inserted (rollback db) = []"
  by (simp_all add: rollback_def)

lemma add_simps [simp]:
  "durable (add db x) = durable db" "txn (add db x) = txn db"
  "pending (add db x) = pending db @ [x]"
  by (simp_all add: add_def)

lemma SessionLocal_simps [simp]:
  "durable (SessionLocal s) = s" "txn (SessionLocal s) = s"
  "pending (SessionLocal s) = []" "inserted (SessionLocal s) = []"
  by (simp_all add: SessionLocal_def)

lemma rollback_add [simp]: "rollback (add db x) = rollback db"
  by (simp add: rollback_def)

lemma rollback_SessionLocal [simp]: "rollback (SessionLocal s) = SessionLocal s"
  by (simp add: rollback_def SessionLocal_def)

lemma find_None_keys: "find (\<lambda>r. f r = k) rows = None \<longleftrightarrow> k \<notin> set (map f rows)"
  by (auto simp: find_None_iff)

lemma find_absent: "k \<notin> f ` set rows \<Longrightarrow> find (\<lambda>r. f r = k) rows = None"
  by (auto simp: find_None_iff)

lemma find_Some_keys: "find (\<lambda>r. f r = k) rows = Some r \<Longrightarrow> f r = k \<and> r \<in> set rows"
  by (auto simp: find_Some_iff)

lemma affinity_simps [simp]:
  "integer_affinity s (VInt n) = VInt n" "integer_affinity s VNull = VNull"
  "text_affinity s (VStr t) = VStr t" "text_affinity s VNull = VNull"
  "text_affinity s (opt_val d) = opt_val d"
  by (simp_all add: integer_affinity_def text_affinity_def opt_val_def split: option.splits)

lemma binds_simps [simp]:
  "binds (VInt n) = int64 n" "binds VNull" "binds (VStr t)" "binds (opt_val d)"
  by (simp_all add: binds_def opt_val_def split: option.splits)

lemma opt_val_not_int [simp]: "opt_val d \<noteq> VInt n" "VInt n \<noteq> opt_val d"
  by (simp_all add: opt_val_def split: option.splits)

lemma get_UserDB_int:
  "get_UserDB db (VInt n)
     = (if int64 n then Inr (find (\<lambda>u. u_id u = VInt n) (users (txn db))) else Inl OverflowError)"
  by (simp add: get_UserDB_def)

lemma get_ProjectDB_int:
  "get_ProjectDB db (VInt n)
     = (if int64 n then Inr (find (\<lambda>p. p_id p = VInt n) (projects (txn db)))
        else Inl OverflowError)"
  by (simp add: get_ProjectDB_def)

lemma int64_small [simp]: "int64 0" "int64 1" "int64 2" "int64 3" "int64 5" "int64 7" "int64 9"
  "int64 999" "\<not> int64 9223372036854775808"
  by (simp_all add: int64_def)

lemma commit_or_rollback_cases:
  "commit_or_rollback db msg = (db', r) \<Longrightarrow>
     (r = Inr () \<and> commit db = Inr db')
   \<or> (r = Inl (HTTPException 409 msg) \<and> db' = rollback db \<and> commit db = Inl IntegrityError)
   \<or> (\<exists>e. r = Inl (Unhandled e) \<and> db' = db \<and> commit db = Inl e \<and> e \<noteq> IntegrityError)"
  by (auto simp: commit_or_rollback_def split: sum.splits db_error.splits)

lemma commit_or_rollback_success:
  "commit_or_rollback db msg = (db', Inr u) \<Longrightarrow> commit db = Inr db'"
  by (auto simp: commit_or_rollback_def split: sum.splits db_error.splits)

lemma commit_or_rollback_conflict_eq:
  "commit db = Inl IntegrityError \<Longrightarrow>
     commit_or_rollback db msg = (rollback db, Inl (HTTPException 409 msg))"
  by (simp add: commit_or_rollback_def)

lemma commit_or_rollback_ok_eq:
  "commit db = Inr db' \<Longrightarrow> commit_or_rollback db msg = (db', Inr ())"
  by (simp add: commit_or_rollback_def)

section \<open>Creating users and projects\<close>

lemma insert_user_duplicate:
  assumes "VStr e \<in> set (map u_email (users s)) \<or> VStr i \<in> set (map u_student_id (users s))"
  shows "insert_user s \<lparr>u_id = k, u_name = VStr n, u_email = VStr e, u_student_id = VStr i\<rparr>
           = Inl IntegrityError"
  using assms by (auto simp: insert_user_def user_affinity_def user_column_violation_def Let_def)

text \<open>
  C5. When the email or the student id of the body of POST /api/users is that of a stored
  user, the answer is 409 and the session is the one the request started with: the store
  is unchanged and nothing is pending.
\<close>

theorem add_user_duplicate_conflict:
  assumes "VStr (uc_email payload) \<in> set (map u_email (users s))
           \<or> VStr (uc_student_id payload) \<in> set (map u_student_id (users s))"
  shows "add_user (SessionLocal s) payload
           = (SessionLocal s, Inl (HTTPException 409 ''User already exists''))"
proof -
  let ?u = "\<lparr>u_id = VNull, u_name = VStr (uc_name payload), u_email = VStr (uc_email payload),
             u_student_id = VStr (uc_student_id payload)\<rparr>"
  have "insert_user s ?u = Inl IntegrityError"
    using assms by (rule insert_user_duplicate)
  then have "commit (add (SessionLocal s) (Insert_user ?u)) = Inl IntegrityError"
    by (simp add: commit_def)
  then show ?thesis
    by (simp add: add_user_def Let_def)
qed

theorem add_user_duplicate_conflict_witness:
  "VStr ''S1'' \<in> set (map u_student_id (users campus))
   \<and> add_user (SessionLocal campus)
        \<lparr>uc_name = ''Zoe'', uc_email = ''z@x.com'', uc_student_id = ''S1''\<rparr>
       = (SessionLocal campus, Inl (HTTPException 409 ''User already exists''))"
proof -
  have h: "VStr ''S1'' \<in> set (map u_student_id (users campus))"
    by (simp add: campus_def ann_def bob_def)
  show ?thesis
    using h add_user_duplicate_conflict
            [of "\<lparr>uc_name = ''Zoe'', uc_email = ''z@x.com'', uc_student_id = ''S1''\<rparr>" campus]
    by simp
qed

text \<open>
  C6, as the specification states it, fails: an owner id beyond 64 bits is the key of no
  user, and the lookup of the owner raises instead of finding nothing, so the answer is
  not 404.
\<close>

theorem create_project_huge_owner_counterexample:
  "VInt 9223372036854775808 \<notin> set (map u_id (users campus))
   \<and> create_project (SessionLocal campus)
        \<lparr>pc_name = ''X'', pc_description = None, pc_owner_id = 9223372036854775808\<rparr>
       = (SessionLocal campus, Inl (Unhandled OverflowError))"
  by (simp add: create_project_def get_UserDB_int campus_def ann_def bob_def)

text \<open>
  C6, amended. When the owner id of the body of POST /api/projects is an integer of 64
  bits and the key of no stored user, the answer is 404 and the session is the one the
  request started with. When it is beyond 64 bits, the lookup raises; the session is
  unchanged then too.
\<close>

theorem create_project_unknown_owner:
  "(int64 (pc_owner_id project) \<and> VInt (pc_owner_id project) \<notin> set (map u_id (users s)) \<longrightarrow>
      create_project (SessionLocal s) project
        = (SessionLocal s, Inl (HTTPException 404 ''User not found'')))
   \<and> (\<not> int64 (pc_owner_id project) \<longrightarrow>
      create_project (SessionLocal s) project = (SessionLocal s, Inl (Unhandled OverflowError)))"
  by (simp add: create_project_def get_UserDB_int find_absent)

theorem create_project_unknown_owner_witness:
  "int64 999 \<and> VInt 999 \<notin> set (map u_id (users campus))
   \<and> create_project (SessionLocal campus)
        \<lparr>pc_name = ''X'', pc_description = None, pc_owner_id = 999\<rparr>
       = (SessionLocal campus, Inl (HTTPException 404 ''User not found''))"
proof -
  have h: "int64 999 \<and> VInt 999 \<notin> set (map u_id (users campus))"
    by (simp add: campus_def ann_def bob_def)
  show ?thesis
    using h create_project_unknown_owner
            [of "\<lparr>pc_name = ''X'', pc_description = None, pc_owner_id = 999\<rparr>" campus]
    by simp
qed

section \<open>Deleting a user\<close>

text \<open>
  C4, as the specification states it, fails: an id beyond 64 bits is the id of no user,
  and the lookup raises instead of finding nothing, so the answer is not 404.
\<close>

theorem delete_user_huge_id_counterexample:
  "VInt 9223372036854775808 \<notin> set (map u_id (users campus))
   \<and> delete_user (SessionLocal campus) 9223372036854775808
       = (SessionLocal campus, Inl (Unhandled OverflowError))"
  by (simp add: delete_user_def get_UserDB_int campus_def ann_def bob_def)

text \<open>
  C4, amended. For an id of 64 bits: when it is the id of a stored user, DELETE
  /api/users/{id} answers 204 with an empty body, and the committed store has lost that
  user and every project whose owner is that id, and nothing else; when no user has it,
  the answer is 404 and the session is as before. For an id beyond 64 bits the lookup
  raises and the session is as before.
\<close>

theorem delete_user_cascade:
  "(int64 user_id \<and> VInt user_id \<notin> set (map u_id (users s)) \<longrightarrow>
      delete_user (SessionLocal s) user_id
        = (SessionLocal s, Inl (HTTPException 404 ''User not found'')))
   \<and> (int64 user_id \<and> VInt user_id \<in> set (map u_id (users s)) \<longrightarrow>
        (\<exists>db'. delete_user (SessionLocal s) user_id = (db', Inr (204, ()))
           \<and> users (durable db') = filter (\<lambda>u. u_id u \<noteq> VInt user_id) (users s)
           \<and> projects (durable db') = filter (\<lambda>p. p_owner_id p \<noteq> VInt user_id) (projects s)
           \<and> courses (durable db') = courses s
           \<and> VInt user_id \<notin> set (map u_id (users (durable db')))
           \<and> VInt user_id \<notin> set (map p_owner_id (projects (durable db')))))
   \<and> (\<not> int64 user_id \<longrightarrow>
        delete_user (SessionLocal s) user_id = (SessionLocal s, Inl (Unhandled OverflowError)))"
proof (intro conjI impI)
  assume "int64 user_id \<and> VInt user_id \<notin> set (map u_id (users s))"
  then show "delete_user (SessionLocal s) user_id
        = (SessionLocal s, Inl (HTTPException 404 ''User not found''))"
    by (simp add: delete_user_def get_UserDB_int find_absent)
next
  assume a: "int64 user_id \<and> VInt user_id \<in> set (map u_id (users s))"
  then obtain user where f: "find (\<lambda>u. u_id u = VInt user_id) (users s) = Some user"
    by (cases "find (\<lambda>u. u_id u = VInt user_id) (users s)") (auto simp: find_None_keys)
  then have k: "u_id user = VInt user_id"
    by (auto dest: find_Some_keys)
  show "\<exists>db'. delete_user (SessionLocal s) user_id = (db', Inr (204, ()))
           \<and> users (durable db') = filter (\<lambda>u. u_id u \<noteq> VInt user_id) (users s)
           \<and> projects (durable db') = filter (\<lambda>p. p_owner_id p \<noteq> VInt user_id) (projects s)
           \<and> courses (durable db') = courses s
           \<and> VInt user_id \<notin> set (map u_id (users (durable db')))
           \<and> VInt user_id \<notin> set (map p_owner_id (projects (durable db')))"
    using a f k
    by (auto simp: delete_user_def get_UserDB_int Let_def commit_def delete_user_row_def)
next
  assume "\<not> int64 user_id"
  then show "delete_user (SessionLocal s) user_id = (SessionLocal s, Inl (Unhandled OverflowError))"
    by (simp add: delete_user_def get_UserDB_int)
qed

theorem delete_user_cascade_witness:
  "int64 1 \<and> int64 7 \<and> VInt 1 \<in> set (map u_id (users campus))
   \<and> VInt 7 \<notin> set (map u_id (users campus))
   \<and> delete_user (SessionLocal campus) 7
        = (SessionLocal campus, Inl (HTTPException 404 ''User not found''))
   \<and> (\<exists>db'. delete_user (SessionLocal campus) 1 = (db', Inr (204, ()))
          \<and> users (durable db') = [bob] \<and> projects (durable db') = [proj_b])"
proof -
  have a: "int64 1 \<and> VInt 1 \<in> set (map u_id (users campus))"
    and b: "int64 7 \<and> VInt 7 \<notin> set (map u_id (users campus))"
    by (simp_all add: campus_def ann_def bob_def)
  have f: "filter (\<lambda>u. u_id u \<noteq> VInt 1) (users campus) = [bob]"
    "filter (\<lambda>p. p_owner_id p \<noteq> VInt 1) (projects campus) = [proj_b]"
    by (simp_all add: campus_def ann_def bob_def proj_a_def proj_b_def proj_c_def)
  note t = delete_user_cascade [of 7 campus, THEN conjunct1, THEN mp, OF b]
  note u = delete_user_cascade [of 1 campus, THEN conjunct2, THEN conjunct1, THEN mp, OF a]
  show ?thesis
    using a b t u unfolding f by blast
qed

section \<open>The projects of a user\<close>

text \<open>
  C10, as the specification states it, fails: for a user id beyond 64 bits the query
  raises, and the request is not answered 200.
\<close>

theorem get_user_projects_huge_id_counterexample:
  "get_user_projects (SessionLocal campus) 9223372036854775808
     = (SessionLocal campus, Inl (Unhandled OverflowError))"
  by (simp add: get_user_projects_def)

text \<open>
  C10, amended. For every user id of 64 bits, also one that no user has,
  GET /api/users/{id}/projects answers 200 with the projects whose owner is that id; it
  looks no user up, so the answer is the same whatever users are stored, and leaves the
  session as it is. For an id beyond 64 bits the query raises. No answer is an HTTP
  error, 404 or other.
\<close>

theorem get_user_projects_never_fails:
  "(int64 user_id \<longrightarrow>
      get_user_projects db user_id
        = (db, Inr (200, filter (\<lambda>p. p_owner_id p = VInt user_id) (projects (txn db)))))
   \<and> (\<not> int64 user_id \<longrightarrow> get_user_projects db user_id = (db, Inl (Unhandled OverflowError)))
   \<and> snd (get_user_projects (db\<lparr>txn := (txn db)\<lparr>users := anyone\<rparr>\<rparr>) user_id)
       = snd (get_user_projects db user_id)
   \<and> get_user_projects db user_id \<noteq> (db', Inl (HTTPException code detail))"
  by (simp add: get_user_projects_def Let_def)

theorem get_user_projects_never_fails_witness:
  "int64 999 \<and> int64 1 \<and> get_UserDB (SessionLocal campus) (VInt 999) = Inr None
   \<and> get_user_projects (SessionLocal campus) 999 = (SessionLocal campus, Inr (200, []))
   \<and> get_user_projects (SessionLocal campus) 1 = (SessionLocal campus, Inr (200, [proj_a, proj_c]))"
proof -
  have a: "int64 999" "int64 1" by simp_all
  note t = get_user_projects_never_fails [of 999 "SessionLocal campus", THEN conjunct1, THEN mp, OF a(1)]
  note u = get_user_projects_never_fails [of 1 "SessionLocal campus", THEN conjunct1, THEN mp, OF a(2)]
  have f: "filter (\<lambda>p. p_owner_id p = VInt 999) (projects campus) = []"
    "filter (\<lambda>p. p_owner_id p = VInt 1) (projects campus) = [proj_a, proj_c]"
    by (simp_all add: campus_def proj_a_def proj_b_def proj_c_def)
  have g: "get_UserDB (SessionLocal campus) (VInt 999) = Inr None"
    by (simp add: get_UserDB_int campus_def ann_def bob_def)
  show ?thesis
    using a g t u by (simp add: f)
qed

section \<open>Listing the courses\<close>

lemma map_insort_key: "map f (insort_key f x xs) = insort (f x) (map f xs)"
  by (induction xs) auto

lemma map_sort_key: "map f (sort_key f xs) = sort (map f xs)"
  by (induction xs) (auto simp: map_insort_key)

lemma c_id_course [simp]: "c_id (course n) = n"
  by (simp add: course_def)

lemma sort_fifteen:
  "sort_key c_id fifteen = map course [1, 2, 3, 4, 5, 6, 7, 8, 9, 10, 11, 12, 13, 14, 15]"
  by (simp add: fifteen_def)

lemma int64_nonneg: "0 \<le> n \<Longrightarrow> n < 9223372036854775808 \<Longrightarrow> int64 n"
  by (simp add: int64_def)

text \<open>
  C9, as the specification states it, fails: the handler does not keep the limit from
  being negative, and for the store a negative limit is no limit. With 15 stored courses,
  limit -1 and offset 12, the answer has the three remaining rows, which is more than the
  limit.
\<close>

theorem list_courses_negative_limit_counterexample:
  "length (courses (txn (SessionLocal campus))) = 15
   \<and> list_courses (SessionLocal campus) (Some (- 1)) (Some 12)
       = (SessionLocal campus, Inr (200, [course 13, course 14, course 15]))"
  by (simp add: list_courses_def int64_def sort_fifteen) (simp add: campus_def fifteen_def sort_fifteen)

text \<open>
  C9, amended. For a limit and an offset that are not negative and of 64 bits,
  GET /api/courses answers 200 with the courses in ascending order of id, without the
  first \<open>offset\<close> of them and cut after \<open>limit\<close>. A missing limit is 10 and a missing
  offset is 0. With 15 stored courses, limit 5 and offset 10 give five rows, whose ids
  are the ids of the store in ascending order without the ten smallest. A negative limit
  of 64 bits is no limit, and a limit or an offset beyond 64 bits makes the query raise.
\<close>

theorem list_courses_page:
  assumes "0 \<le> limit" and "limit < 9223372036854775808"
    and "0 \<le> offset" and "offset < 9223372036854775808"
  shows "(let cs = courses (txn db);
              page = take (nat limit) (drop (nat offset) (sort_key c_id cs))
          in list_courses db (Some limit) (Some offset) = (db, Inr (200, page))
             \<and> sorted (map c_id page)
             \<and> map c_id page = take (nat limit) (drop (nat offset) (sort (map c_id cs)))
             \<and> set page \<subseteq> set cs
             \<and> length page = min (nat limit) (length cs - nat offset))
         \<and> list_courses db None None = list_courses db (Some 10) (Some 0)
         \<and> list_courses db (Some limit) None = list_courses db (Some limit) (Some 0)
         \<and> list_courses db None (Some offset) = list_courses db (Some 10) (Some offset)
         \<and> (length (courses (txn db)) = 15 \<longrightarrow>
              (\<exists>rows. list_courses db (Some 5) (Some 10) = (db, Inr (200, rows))
                 \<and> length rows = 5
                 \<and> map c_id rows = drop 10 (sort (map c_id (courses (txn db))))
                 \<and> set rows \<subseteq> set (courses (txn db))))
         \<and> (int64 other \<and> other < 0 \<longrightarrow>
              list_courses db (Some other) (Some offset)
                = (db, Inr (200, drop (nat offset) (sort_key c_id (courses (txn db))))))
         \<and> (\<not> int64 other \<longrightarrow>
              list_courses db (Some other) (Some offset) = (db, Inl (Unhandled OverflowError))
              \<and> list_courses db (Some limit) (Some other) = (db, Inl (Unhandled OverflowError)))"
proof -
  let ?cs = "courses (txn db)"
  let ?page = "take (nat limit) (drop (nat offset) (sort_key c_id ?cs))"
  have r: "int64 limit" "int64 offset"
    using assms by (simp_all add: int64_nonneg)
  have 1: "list_courses db (Some limit) (Some offset) = (db, Inr (200, ?page))"
    using assms r by (simp add: list_courses_def)
  have "sorted (map c_id (sort_key c_id ?cs))" by simp
  then have 2: "sorted (map c_id ?page)"
    unfolding take_map [symmetric] drop_map [symmetric]
    by (intro sorted_wrt_take sorted_wrt_drop)
  have 3: "map c_id ?page = take (nat limit) (drop (nat offset) (sort (map c_id ?cs)))"
    by (simp add: take_map drop_map flip: map_sort_key)
  have "set ?page \<subseteq> set (sort_key c_id ?cs)"
    by (meson set_take_subset set_drop_subset subset_trans)
  then have 4: "set ?page \<subseteq> set ?cs" by simp
  have 5: "length ?page = min (nat limit) (length ?cs - nat offset)"
    by simp
  have 6: "list_courses db None None = list_courses db (Some 10) (Some 0)"
    "list_courses db (Some limit) None = list_courses db (Some limit) (Some 0)"
    "list_courses db None (Some offset) = list_courses db (Some 10) (Some offset)"
    by (simp_all add: list_courses_def)
  have 7: "\<exists>rows. list_courses db (Some 5) (Some 10) = (db, Inr (200, rows))
                 \<and> length rows = 5
                 \<and> map c_id rows = drop 10 (sort (map c_id ?cs))
                 \<and> set rows \<subseteq> set ?cs" if l: "length ?cs = 15"
  proof (intro exI conjI)
    show "list_courses db (Some 5) (Some 10) = (db, Inr (200, take 5 (drop 10 (sort_key c_id ?cs))))"
      by (simp add: list_courses_def int64_def)
    show "length (take 5 (drop 10 (sort_key c_id ?cs))) = 5"
      using l by simp
    have "take 5 (drop 10 (sort_key c_id ?cs)) = drop 10 (sort_key c_id ?cs)"
      using l by simp
    then show "map c_id (take 5 (drop 10 (sort_key c_id ?cs))) = drop 10 (sort (map c_id ?cs))"
      by (simp add: drop_map flip: map_sort_key)
    have "set (take 5 (drop 10 (sort_key c_id ?cs))) \<subseteq> set (sort_key c_id ?cs)"
      by (meson set_take_subset set_drop_subset subset_trans)
    then show "set (take 5 (drop 10 (sort_key c_id ?cs))) \<subseteq> set ?cs" by simp
  qed
  have 8: "list_courses db (Some other) (Some offset)
                = (db, Inr (200, drop (nat offset) (sort_key c_id ?cs)))"
    if "int64 other \<and> other < 0"
    using that r by (simp add: list_courses_def)
  have 9: "list_courses db (Some other) (Some offset) = (db, Inl (Unhandled OverflowError))
              \<and> list_courses db (Some limit) (Some other) = (db, Inl (Unhandled OverflowError))"
    if "\<not> int64 other"
    using that by (simp add: list_courses_def)
  show ?thesis
    unfolding Let_def using 1 2 3 4 5 6 7 8 9 by blast
qed

theorem list_courses_page_witness:
  "(0::int) \<le> 5 \<and> (5::int) < 9223372036854775808 \<and> (0::int) \<le> 10
   \<and> (10::int) < 9223372036854775808 \<and> length (courses (txn (SessionLocal campus))) = 15
   \<and> list_courses (SessionLocal campus) (Some 5) (Some 10)
       = (SessionLocal campus, Inr (200, map course [11, 12, 13, 14, 15]))
   \<and> list_courses (SessionLocal campus) None None
       = (SessionLocal campus, Inr (200, map course [1, 2, 3, 4, 5, 6, 7, 8, 9, 10]))"
proof -
  have l: "length (courses (txn (SessionLocal campus))) = 15"
    by (simp add: campus_def fifteen_def)
  have c: "courses campus = fifteen"
    by (simp add: campus_def)
  have a: "(0::int) \<le> 5" "(5::int) < 9223372036854775808" "(0::int) \<le> 10"
    "(10::int) < 9223372036854775808"
    and b: "(0::int) \<le> 10" "(10::int) < 9223372036854775808" "(0::int) \<le> 0"
    "(0::int) < 9223372036854775808"
    by simp_all
  note t = list_courses_page [OF a, of "SessionLocal campus", unfolded Let_def, THEN conjunct1, THEN conjunct1]
  note u = list_courses_page [OF b, of "SessionLocal campus", unfolded Let_def, THEN conjunct1, THEN conjunct1]
  note d = list_courses_page [OF b, of "SessionLocal campus", THEN conjunct2, THEN conjunct1]
  have 1: "list_courses (SessionLocal campus) (Some 5) (Some 10)
       = (SessionLocal campus, Inr (200, map course [11, 12, 13, 14, 15]))"
    using t by (simp add: c sort_fifteen)
  have "list_courses (SessionLocal campus) (Some 10) (Some 0)
       = (SessionLocal campus, Inr (200, map course [1, 2, 3, 4, 5, 6, 7, 8, 9, 10]))"
    using u by (simp add: c sort_fifteen)
  with d have 2: "list_courses (SessionLocal campus) None None
       = (SessionLocal campus, Inr (200, map course [1, 2, 3, 4, 5, 6, 7, 8, 9, 10]))"
    by simp
  show ?thesis using l 1 2 by simp
qed

section \<open>Replacing a project\<close>

lemma find_present:
  "k \<in> f ` set rows \<Longrightarrow> \<exists>r. find (\<lambda>r. f r = k) rows = Some r"
  by (cases "find (\<lambda>r. f r = k) rows") (auto simp: find_None_iff)

lemma find_map_same_key:
  assumes "find (\<lambda>p. p_id p = k) rows = Some proj"
    and "\<And>q. p_id q = k \<Longrightarrow> p_id (f q) = k"
  shows "find (\<lambda>p. p_id p = k) (map (\<lambda>q. if p_id q = k then f q else q) rows) = Some (f proj)"
  using assms by (induction rows) (auto split: if_splits)

lemma model_dump_sets:
  "fold (\<lambda>(field, v) q. set_project_column q field v) (model_dump_project project) proj
     = proj\<lparr>p_name := VStr (pc_name project), p_description := opt_val (pc_description project),
            p_owner_id := VInt (pc_owner_id project)\<rparr>"
  by (simp add: model_dump_project_def set_project_column_def)

lemma changed_no_id:
  "p_id new = p_id old \<Longrightarrow> ''id'' \<notin> fst ` set (changed old new)"
  by (auto simp: changed_def project_columns_def getattr_project_def)

lemma changed_subset:
  "(c, v) \<in> set (changed old new) \<Longrightarrow> c \<in> set project_columns \<and> v = getattr_project new c"
  by (auto simp: changed_def)

lemma write_changed_put:
  assumes "new = proj\<lparr>p_name := VStr n, p_description := opt_val d, p_owner_id := VInt w\<rparr>"
  shows "write_project s (changed proj new) proj = new"
  using assms
  by (cases proj)
     (auto simp: write_project_def changed_def project_columns_def getattr_project_def
        set_project_column_def project_affinity_def)

lemma write_changed_put_id:
  assumes "new = proj\<lparr>p_name := VStr n, p_description := opt_val d, p_owner_id := VInt w\<rparr>"
  shows "p_id (write_project s (changed proj new) q) = p_id q"
  using assms
  by (auto simp: write_project_def changed_def project_columns_def getattr_project_def
        set_project_column_def project_affinity_def)

lemma update_put_ok:
  assumes "new = proj\<lparr>p_name := VStr n, p_description := opt_val d, p_owner_id := VInt w\<rparr>"
    and "binds pk" and "int64 w"
  shows "update_project_row s pk (changed proj new)
           = Inr (s\<lparr>projects := map (\<lambda>q. if p_id q = pk then write_project s (changed proj new) q
                                           else q) (projects s)\<rparr>)"
proof (cases "changed proj new = []")
  case True
  have "map (\<lambda>q. if p_id q = pk then write_project s [] q else q) (projects s) = projects s"
    by (rule map_idI) (simp add: write_project_def)
  then show ?thesis
    unfolding True by (simp add: update_project_row_def)
next
  case False
  have b: "\<not> list_ex (\<lambda>(c, v). \<not> binds v) (changed proj new)"
    using assms(1,3)
    by (auto simp: list_ex_iff changed_def project_columns_def getattr_project_def)
  have v: "\<not> list_ex (\<lambda>(c, v). project_column_violation others c (project_affinity s c v))
              (changed proj new)" for others
    using assms(1)
    by (auto simp: list_ex_iff changed_def project_columns_def getattr_project_def
          project_column_violation_def project_affinity_def)
  show ?thesis
    using False b v assms(2) by (simp add: update_project_row_def)
qed

text \<open>
  C7, as the specification states it, fails: a project id beyond 64 bits is the id of no
  project, and the lookup raises instead of finding nothing, so the answer is not 404.
\<close>

theorem update_project_huge_id_counterexample:
  "VInt 9223372036854775808 \<notin> set (map p_id (projects campus))
   \<and> update_project (SessionLocal campus) 9223372036854775808
        \<lparr>pc_name = ''N'', pc_description = None, pc_owner_id = 1\<rparr>
       = (SessionLocal campus, Inl (Unhandled OverflowError))"
  by (simp add: update_project_def get_ProjectDB_int campus_def proj_a_def proj_b_def proj_c_def)

text \<open>
  C7, amended. For a project id and an owner id of 64 bits, PUT /api/projects/{id}
  answers 404 when no project has the id, 404 when the project exists and the owner id of
  the body is the key of no user, and otherwise 200: the row of the project then holds
  the name, the description and the owner of the body under the old id, the change is
  committed and no other row changes. A project id beyond 64 bits, or an owner id beyond
  64 bits for a stored project, makes the lookup raise with the session unchanged. In
  any session, when the project and the owner are found and the commit raises the
  integrity error, the answer is 409 and the session is rolled back.
\<close>

theorem update_project_overwrites:
  "(int64 project_id \<and> VInt project_id \<notin> set (map p_id (projects s)) \<longrightarrow>
      update_project (SessionLocal s) project_id project
        = (SessionLocal s, Inl (HTTPException 404 ''Project not found'')))
   \<and> (int64 project_id \<and> VInt project_id \<in> set (map p_id (projects s))
        \<and> int64 (pc_owner_id project)
        \<and> VInt (pc_owner_id project) \<notin> set (map u_id (users s)) \<longrightarrow>
      update_project (SessionLocal s) project_id project
        = (SessionLocal s, Inl (HTTPException 404 ''Owner user not found'')))
   \<and> (get_ProjectDB (SessionLocal s) (VInt project_id) = Inr (Some proj)
        \<and> int64 (pc_owner_id project)
        \<and> VInt (pc_owner_id project) \<in> set (map u_id (users s)) \<longrightarrow>
      (let row = \<lparr>p_id = VInt project_id, p_name = VStr (pc_name project),
                  p_description = opt_val (pc_description project),
                  p_owner_id = VInt (pc_owner_id project)\<rparr>;
           s' = s\<lparr>projects := map (\<lambda>q. if p_id q = VInt project_id
                                         then write_project s (changed proj row) q else q)
                                 (projects s)\<rparr>
       in update_project (SessionLocal s) project_id project = (SessionLocal s', Inr (200, row))
          \<and> find (\<lambda>q. p_id q = VInt project_id) (projects s') = Some row))
   \<and> (\<not> int64 project_id \<longrightarrow>
        update_project (SessionLocal s) project_id project
          = (SessionLocal s, Inl (Unhandled OverflowError)))
   \<and> (int64 project_id \<and> VInt project_id \<in> set (map p_id (projects s))
        \<and> \<not> int64 (pc_owner_id project) \<longrightarrow>
        update_project (SessionLocal s) project_id project
          = (SessionLocal s, Inl (Unhandled OverflowError)))
   \<and> (get_ProjectDB db (VInt project_id) = Inr (Some proj)
        \<and> get_UserDB db (VInt (pc_owner_id project)) = Inr (Some owner)
        \<and> commit (add db (Update_project (p_id proj)
                    (changed proj (proj\<lparr>p_name := VStr (pc_name project),
                                         p_description := opt_val (pc_description project),
                                         p_owner_id := VInt (pc_owner_id project)\<rparr>))))
            = Inl IntegrityError \<longrightarrow>
        update_project db project_id project
          = (rollback db, Inl (HTTPException 409 ''Project update failed'')))"
proof (intro conjI impI)
  assume "int64 project_id \<and> VInt project_id \<notin> set (map p_id (projects s))"
  then show "update_project (SessionLocal s) project_id project
        = (SessionLocal s, Inl (HTTPException 404 ''Project not found''))"
    by (simp add: update_project_def get_ProjectDB_int find_absent)
next
  assume a: "int64 project_id \<and> VInt project_id \<in> set (map p_id (projects s))
        \<and> int64 (pc_owner_id project)
        \<and> VInt (pc_owner_id project) \<notin> set (map u_id (users s))"
  then obtain p where "find (\<lambda>p. p_id p = VInt project_id) (projects s) = Some p"
    using find_present [of "VInt project_id" p_id "projects s"] by auto
  then show "update_project (SessionLocal s) project_id project
        = (SessionLocal s, Inl (HTTPException 404 ''Owner user not found''))"
    using a by (simp add: update_project_def get_ProjectDB_int get_UserDB_int find_absent)
next
  assume a: "get_ProjectDB (SessionLocal s) (VInt project_id) = Inr (Some proj)
        \<and> int64 (pc_owner_id project)
        \<and> VInt (pc_owner_id project) \<in> set (map u_id (users s))"
  let ?row = "\<lparr>p_id = VInt project_id, p_name = VStr (pc_name project),
                  p_description = opt_val (pc_description project),
                  p_owner_id = VInt (pc_owner_id project)\<rparr>"
  let ?s' = "s\<lparr>projects := map (\<lambda>q. if p_id q = VInt project_id
                                         then write_project s (changed proj ?row) q else q)
                                 (projects s)\<rparr>"
  from a have r: "int64 project_id"
    and f: "find (\<lambda>p. p_id p = VInt project_id) (projects s) = Some proj"
    by (auto simp: get_ProjectDB_int split: if_splits)
  then have pk: "p_id proj = VInt project_id"
    by (auto dest: find_Some_keys)
  obtain owner where o: "find (\<lambda>u. u_id u = VInt (pc_owner_id project)) (users s) = Some owner"
    using a find_present [of "VInt (pc_owner_id project)" u_id "users s"] by auto
  have n: "?row = proj\<lparr>p_name := VStr (pc_name project),
                      p_description := opt_val (pc_description project),
                      p_owner_id := VInt (pc_owner_id project)\<rparr>"
    using pk by (cases proj) simp
  have u: "update_project_row s (VInt project_id) (changed proj ?row) = Inr ?s'"
    using a r by (intro update_put_ok [OF n]) simp_all
  have c: "commit (add (SessionLocal s) (Update_project (VInt project_id) (changed proj ?row)))
             = Inr (SessionLocal ?s')"
    by (simp add: commit_def u SessionLocal_def)
  have w: "write_project s (changed proj ?row) proj = ?row"
    by (rule write_changed_put [OF n])
  have "find (\<lambda>p. p_id p = VInt project_id)
          (map (\<lambda>q. if p_id q = VInt project_id then write_project s (changed proj ?row) q else q)
             (projects s)) = Some (write_project s (changed proj ?row) proj)"
    using f by (rule find_map_same_key) (simp add: write_changed_put_id [OF n])
  then have g: "find (\<lambda>p. p_id p = VInt project_id) (projects ?s') = Some ?row"
    by (simp add: w)
  then have g': "refresh_ProjectDB (SessionLocal ?s') (VInt project_id) = Inr ?row"
    using r by (simp add: refresh_ProjectDB_def get_ProjectDB_int)
  have m: "fold (\<lambda>(field, v) q. set_project_column q field v) (model_dump_project project) proj
             = ?row"
    unfolding model_dump_sets n ..
  have "update_project (SessionLocal s) project_id project = (SessionLocal ?s', Inr (200, ?row))"
    using r a
    by (simp add: update_project_def get_ProjectDB_int get_UserDB_int f o pk Let_def m
          commit_or_rollback_ok_eq [OF c] g')
  with g show "let row = \<lparr>p_id = VInt project_id, p_name = VStr (pc_name project),
                  p_description = opt_val (pc_description project),
                  p_owner_id = VInt (pc_owner_id project)\<rparr>;
           s' = s\<lparr>projects := map (\<lambda>q. if p_id q = VInt project_id
                                         then write_project s (changed proj row) q else q)
                                 (projects s)\<rparr>
       in update_project (SessionLocal s) project_id project = (SessionLocal s', Inr (200, row))
          \<and> find (\<lambda>q. p_id q = VInt project_id) (projects s') = Some row"
    unfolding Let_def by (intro conjI)
next
  assume "\<not> int64 project_id"
  then show "update_project (SessionLocal s) project_id project
          = (SessionLocal s, Inl (Unhandled OverflowError))"
    by (simp add: update_project_def get_ProjectDB_int)
next
  assume a: "int64 project_id \<and> VInt project_id \<in> set (map p_id (projects s))
        \<and> \<not> int64 (pc_owner_id project)"
  then obtain p where "find (\<lambda>p. p_id p = VInt project_id) (projects s) = Some p"
    using find_present [of "VInt project_id" p_id "projects s"] by auto
  then show "update_project (SessionLocal s) project_id project
          = (SessionLocal s, Inl (Unhandled OverflowError))"
    using a by (simp add: update_project_def get_ProjectDB_int get_UserDB_int)
next
  assume a: "get_ProjectDB db (VInt project_id) = Inr (Some proj)
        \<and> get_UserDB db (VInt (pc_owner_id project)) = Inr (Some owner)
        \<and> commit (add db (Update_project (p_id proj)
                    (changed proj (proj\<lparr>p_name := VStr (pc_name project),
                                         p_description := opt_val (pc_description project),
                                         p_owner_id := VInt (pc_owner_id project)\<rparr>))))
            = Inl IntegrityError"
  then show "update_project db project_id project
          = (rollback db, Inl (HTTPException 409 ''Project update failed''))"
    by (simp add: update_project_def model_dump_sets commit_or_rollback_conflict_eq)
qed


theorem update_project_overwrites_witness:
  "int64 9 \<and> int64 2 \<and> int64 1 \<and> int64 5
   \<and> VInt 9 \<notin> set (map p_id (projects campus)) \<and> VInt 5 \<notin> set (map u_id (users campus))
   \<and> get_ProjectDB (SessionLocal campus) (VInt 2) = Inr (Some proj_b)
   \<and> VInt 1 \<in> set (map u_id (users campus))
   \<and> update_project (SessionLocal campus) 9 \<lparr>pc_name = ''N'', pc_description = None, pc_owner_id = 1\<rparr>
        = (SessionLocal campus, Inl (HTTPException 404 ''Project not found''))
   \<and> update_project (SessionLocal campus) 2 \<lparr>pc_name = ''N'', pc_description = None, pc_owner_id = 5\<rparr>
        = (SessionLocal campus, Inl (HTTPException 404 ''Owner user not found''))
   \<and> update_project (SessionLocal campus) 2 \<lparr>pc_name = ''N'', pc_description = Some ''D'', pc_owner_id = 1\<rparr>
        = (SessionLocal (campus\<lparr>projects :=
              [proj_a, \<lparr>p_id = VInt 2, p_name = VStr ''N'', p_description = VStr ''D'', p_owner_id = VInt 1\<rparr>, proj_c]\<rparr>),
           Inr (200, \<lparr>p_id = VInt 2, p_name = VStr ''N'', p_description = VStr ''D'', p_owner_id = VInt 1\<rparr>))
   \<and> update_project
         (add (SessionLocal campus)
            (Insert_user \<lparr>u_id = VNull, u_name = VStr ''Zoe'', u_email = VStr ''a@x.com'',
                           u_student_id = VStr ''S9''\<rparr>))
         2 \<lparr>pc_name = ''N'', pc_description = Some ''D'', pc_owner_id = 1\<rparr>
        = (SessionLocal campus, Inl (HTTPException 409 ''Project update failed''))"
proof -
  let ?body = "\<lparr>pc_name = ''N'', pc_description = Some ''D'', pc_owner_id = 1\<rparr>"
  let ?row = "\<lparr>p_id = VInt 2, p_name = VStr ''N'', p_description = VStr ''D'', p_owner_id = VInt 1\<rparr>"
  let ?zoe = "\<lparr>u_id = VNull, u_name = VStr ''Zoe'', u_email = VStr ''a@x.com'',
                u_student_id = VStr ''S9''\<rparr>"
  let ?db = "add (SessionLocal campus) (Insert_user ?zoe)"
  have h: "int64 9 \<and> VInt 9 \<notin> set (map p_id (projects campus))"
    "int64 2 \<and> VInt 2 \<in> set (map p_id (projects campus)) \<and> int64 5
       \<and> VInt 5 \<notin> set (map u_id (users campus))"
    by (simp_all add: campus_def ann_def bob_def proj_a_def proj_b_def proj_c_def)
  have g: "get_ProjectDB (SessionLocal campus) (VInt 2) = Inr (Some proj_b)"
    by (simp add: get_ProjectDB_int campus_def proj_a_def proj_b_def)
  have i: "VInt 1 \<in> set (map u_id (users campus))" "int64 1"
    by (simp_all add: campus_def ann_def)
  note t1 = update_project_overwrites
              [of 9 campus "\<lparr>pc_name = ''N'', pc_description = None, pc_owner_id = 1\<rparr>",
               THEN conjunct1, THEN mp, OF h(1)]
  have a2: "int64 2 \<and> VInt 2 \<in> set (map p_id (projects campus))
       \<and> int64 (pc_owner_id \<lparr>pc_name = ''N'', pc_description = None, pc_owner_id = 5\<rparr>)
       \<and> VInt (pc_owner_id \<lparr>pc_name = ''N'', pc_description = None, pc_owner_id = 5\<rparr>)
             \<notin> set (map u_id (users campus))"
    using h(2) by simp
  note t2 = update_project_overwrites
              [of 2 campus "\<lparr>pc_name = ''N'', pc_description = None, pc_owner_id = 5\<rparr>",
               THEN conjunct2, THEN conjunct1, THEN mp, OF a2]
  have a3: "get_ProjectDB (SessionLocal campus) (VInt 2) = Inr (Some proj_b)
              \<and> int64 (pc_owner_id ?body) \<and> VInt (pc_owner_id ?body) \<in> set (map u_id (users campus))"
    using g i by simp
  note t3 = update_project_overwrites
              [of 2 campus ?body proj_b, THEN conjunct2, THEN conjunct2, THEN conjunct1,
               THEN mp, OF a3, unfolded Let_def, THEN conjunct1]
  have n: "?row = proj_b\<lparr>p_name := VStr ''N'', p_description := opt_val (Some ''D''),
                          p_owner_id := VInt 1\<rparr>"
    by (simp add: proj_b_def opt_val_def)
  have w: "write_project campus (changed proj_b ?row) proj_b = ?row"
    by (rule write_changed_put [OF n])
  have m: "map (\<lambda>q. if p_id q = VInt 2 then write_project campus (changed proj_b ?row) q else q)
             (projects campus) = [proj_a, ?row, proj_c]"
    using w by (simp add: campus_def proj_a_def proj_c_def) (simp add: proj_b_def)
  have 3: "update_project (SessionLocal campus) 2 ?body
        = (SessionLocal (campus\<lparr>projects := [proj_a, ?row, proj_c]\<rparr>), Inr (200, ?row))"
    using t3 by (simp add: opt_val_def m cong: if_cong)
  have z: "insert_user campus ?zoe = Inl IntegrityError"
    by (rule insert_user_duplicate) (simp add: campus_def ann_def)
  have c: "commit (add ?db (Update_project (p_id proj_b)
                    (changed proj_b (proj_b\<lparr>p_name := VStr (pc_name ?body),
                                             p_description := opt_val (pc_description ?body),
                                             p_owner_id := VInt (pc_owner_id ?body)\<rparr>))))
            = Inl IntegrityError"
    by (simp add: commit_def z)
  have a4: "get_ProjectDB ?db (VInt 2) = Inr (Some proj_b)
        \<and> get_UserDB ?db (VInt (pc_owner_id ?body)) = Inr (Some ann)
        \<and> commit (add ?db (Update_project (p_id proj_b)
                    (changed proj_b (proj_b\<lparr>p_name := VStr (pc_name ?body),
                                             p_description := opt_val (pc_description ?body),
                                             p_owner_id := VInt (pc_owner_id ?body)\<rparr>))))
            = Inl IntegrityError"
    using c by (simp add: get_ProjectDB_int get_UserDB_int campus_def proj_a_def proj_b_def ann_def)
  note t4 = update_project_overwrites
              [where db = ?db and project_id = 2 and project = ?body and proj = proj_b
                 and owner = ann,
               THEN conjunct2, THEN conjunct2, THEN conjunct2, THEN conjunct2, THEN conjunct2,
               THEN mp, OF a4]
  show ?thesis
    using h g i t1 t2 3 t4 by simp
qed

section \<open>Patching a project\<close>

lemma getattr_set_other:
  "f \<noteq> c \<Longrightarrow> getattr_project (set_project_column r c v) f = getattr_project r f"
  by (auto simp: getattr_project_def set_project_column_def)

lemma getattr_set_same:
  "c \<in> set project_columns \<Longrightarrow> getattr_project (set_project_column r c v) c = v"
  by (auto simp: getattr_project_def set_project_column_def project_columns_def)

lemma patch_loop_frame:
  "patch_loop base body obj = Inr obj' \<Longrightarrow> f \<notin> fst ` set body \<Longrightarrow>
     getattr_project (fst obj') f = getattr_project (fst obj) f"
proof (induction body arbitrary: obj)
  case Nil
  then show ?case by simp
next
  case (Cons a body)
  obtain c v where a: "a = (c, v)" by (cases a)
  from Cons.prems(2) a have n: "f \<noteq> c" "f \<notin> fst ` set body" by auto
  show ?case
  proof (cases "hasattr_project base c")
    case False
    with Cons.prems(1) a have "patch_loop base body obj = Inr obj'" by simp
    from Cons.IH [OF this n(2)] show ?thesis .
  next
    case True
    with Cons.prems(1) a obtain mid where
      m: "setattr_project base obj c v = Inr mid" "patch_loop base body mid = Inr obj'"
      by (auto split: sum.splits)
    have "getattr_project (fst mid) f = getattr_project (fst obj) f"
      using m(1) n(1)
      by (auto simp: setattr_project_def getattr_set_other
            split: if_splits option.splits inherited.splits)
    with Cons.IH [OF m(2) n(2)] show ?thesis by simp
  qed
qed

lemma patch_loop_supplied:
  "patch_loop base body obj = Inr obj' \<Longrightarrow> distinct (map fst body) \<Longrightarrow>
     (c, v) \<in> set body \<Longrightarrow> c \<in> set project_columns \<Longrightarrow> getattr_project (fst obj') c = v"
proof (induction body arbitrary: obj)
  case Nil
  then show ?case by simp
next
  case (Cons a body)
  obtain c' v' where a: "a = (c', v')" by (cases a)
  show ?case
  proof (cases "(c, v) = a")
    case True
    then have e: "c' = c" "v' = v" using a by simp_all
    have h: "hasattr_project base c" using Cons.prems(4) by (simp add: hasattr_project_def)
    from Cons.prems(1) a e h Cons.prems(4)
    have l: "patch_loop base body (set_project_column (fst obj) c v, snd obj) = Inr obj'"
      by (simp add: setattr_project_def)
    have n: "c \<notin> fst ` set body" using Cons.prems(2) a e by simp
    from patch_loop_frame [OF l n] show ?thesis
      using Cons.prems(4) by (simp add: getattr_set_same)
  next
    case False
    with Cons.prems(3) have i: "(c, v) \<in> set body" by simp
    from Cons.prems(2) have d: "distinct (map fst body)" by simp
    from Cons.prems(1) a obtain mid where m: "patch_loop base body mid = Inr obj'"
      by (auto split: if_splits sum.splits)
    from Cons.IH [OF m d i Cons.prems(4)] show ?thesis .
  qed
qed

lemma patch_loop_ignores_unknown:
  "patch_loop base (filter (\<lambda>(c, v). hasattr_project base c) body) obj
     = patch_loop base body obj"
  by (induction body arbitrary: obj) (auto split: sum.splits)

lemma write_changed_getattr:
  "getattr_project (write_project s (changed old new) q) f
     = (if f \<in> set project_columns \<and> getattr_project new f \<noteq> getattr_project old f
        then project_affinity s f (getattr_project new f) else getattr_project q f)"
  by (simp add: write_project_def changed_def project_columns_def getattr_project_def
        set_project_column_def)

lemma p_id_write_changed:
  "p_id (write_project s (changed old new) q)
     = (if p_id new \<noteq> p_id old then integer_affinity s (p_id new) else p_id q)"
  using write_changed_getattr [of s old new q "''id''"]
  by (simp add: getattr_project_def project_columns_def project_affinity_def)

lemma find_map_moved:
  assumes "find (\<lambda>p. p_id p = k) rows = Some proj"
    and "\<And>q. p_id q = k \<Longrightarrow> p_id (f q) = k'"
    and "k' \<notin> p_id ` {q \<in> set rows. p_id q \<noteq> k}"
  shows "find (\<lambda>p. p_id p = k') (map (\<lambda>q. if p_id q = k then f q else q) rows) = Some (f proj)"
  using assms by (induction rows) (auto split: if_splits)

lemma commit_update_fresh:
  "commit (add (SessionLocal s) (Update_project pk ch))
     = (case update_project_row s pk ch of Inl e \<Rightarrow> Inl e | Inr s' \<Rightarrow> Inr (SessionLocal s'))"
  by (simp add: commit_def SessionLocal_def split: sum.splits)

lemma commit_delete_fresh:
  "commit (add (SessionLocal s) (Delete_project pk)) = Inr (SessionLocal (delete_project_row s pk))"
  by (simp add: commit_def SessionLocal_def)

lemma update_project_row_shape:
  assumes "update_project_row s pk ch = Inr s2"
  shows "s2 = s\<lparr>projects := map (\<lambda>q. if p_id q = pk then write_project s ch q else q)
                               (projects s)\<rparr>"
proof (cases "ch = []")
  case True
  have "map (\<lambda>q. if p_id q = pk then write_project s [] q else q) (projects s) = projects s"
    by (rule map_idI) (simp add: write_project_def)
  then show ?thesis
    using assms unfolding True by (simp add: update_project_row_def)
next
  case False
  then show ?thesis
    using assms by (auto simp: update_project_row_def Let_def split: if_splits)
qed

lemma update_project_row_id:
  assumes "update_project_row s pk (changed old new) = Inr s2" and "p_id new \<noteq> p_id old"
  shows "binds (p_id new) \<and> is_integer (integer_affinity s (p_id new))
         \<and> integer_affinity s (p_id new) \<notin> p_id ` {q \<in> set (projects s). p_id q \<noteq> pk}"
proof -
  have i: "(''id'', p_id new) \<in> set (changed old new)"
    using assms(2) by (simp add: changed_def project_columns_def getattr_project_def)
  then have n: "changed old new \<noteq> []" by auto
  from assms(1) n have
    b: "\<not> list_ex (\<lambda>(c, v). \<not> binds v) (changed old new)" and
    v: "\<not> list_ex (\<lambda>(c, v). project_column_violation (filter (\<lambda>q. p_id q \<noteq> pk) (projects s)) c
                          (project_affinity s c v)) (changed old new)"
    by (auto simp: update_project_row_def Let_def split: if_splits)
  from b i have "binds (p_id new)" by (auto simp: list_ex_iff)
  moreover from v i have
    "\<not> project_column_violation (filter (\<lambda>q. p_id q \<noteq> pk) (projects s)) ''id''
         (project_affinity s ''id'' (p_id new))"
    by (auto simp: list_ex_iff)
  ultimately show ?thesis
    by (auto simp: project_column_violation_def project_affinity_def)
qed

lemma refresh_after_update:
  assumes f: "find (\<lambda>p. p_id p = VInt pid) (projects s) = Some proj" and k: "p_id proj = VInt pid"
    and i: "int64 pid"
    and u: "update_project_row s (VInt pid) (changed proj new) = Inr s2"
  shows "refresh_ProjectDB (SessionLocal s2) (p_id new)
           = Inr (write_project s (changed proj new) proj)"
proof -
  let ?w = "write_project s (changed proj new)"
  have s2: "s2 = s\<lparr>projects := map (\<lambda>q. if p_id q = VInt pid then ?w q else q) (projects s)\<rparr>"
    using u by (rule update_project_row_shape)
  show ?thesis
  proof (cases "p_id new = p_id proj")
    case True
    have "find (\<lambda>p. p_id p = VInt pid) (map (\<lambda>q. if p_id q = VInt pid then ?w q else q) (projects s))
            = Some (?w proj)"
      using f by (rule find_map_same_key) (simp add: p_id_write_changed True)
    then show ?thesis
      using True k i by (simp add: refresh_ProjectDB_def get_ProjectDB_int s2)
  next
    case False
    from update_project_row_id [OF u False] have
      b: "binds (p_id new)" and n: "is_integer (integer_affinity s (p_id new))" and
      o: "integer_affinity s (p_id new) \<notin> p_id ` {q \<in> set (projects s). p_id q \<noteq> VInt pid}"
      by simp_all
    have z: "p_id new \<noteq> VNull" using n by (auto simp: is_integer_def)
    have a: "integer_affinity s2 (p_id new) = integer_affinity s (p_id new)"
      by (simp add: s2 integer_affinity_def split: val.splits)
    have "find (\<lambda>p. p_id p = integer_affinity s (p_id new))
            (map (\<lambda>q. if p_id q = VInt pid then ?w q else q) (projects s)) = Some (?w proj)"
      using f _ o by (rule find_map_moved) (simp add: p_id_write_changed False k)
    then show ?thesis
      using b z a by (simp add: refresh_ProjectDB_def get_ProjectDB_def s2)
  qed
qed

lemma get_ProjectDB_fresh:
  assumes "get_ProjectDB (SessionLocal s) (VInt pid) = Inr (Some proj)"
  shows "find (\<lambda>p. p_id p = VInt pid) (projects s) = Some proj" "p_id proj = VInt pid" "int64 pid"
  using assms by (auto simp: get_ProjectDB_int find_Some_iff split: if_splits)

lemma patch_project_ok:
  assumes g: "get_ProjectDB (SessionLocal s) (VInt pid) = Inr (Some proj)"
    and c: "owner_check (SessionLocal s) body = None"
    and l: "patch_loop base body (proj, False) = Inr (new, False)"
    and u: "update_project_row s (VInt pid) (changed proj new) = Inr s2"
  shows "patch_project base (SessionLocal s) pid body
           = (SessionLocal s2, Inr (200, write_project s (changed proj new) proj))"
proof -
  note p = get_ProjectDB_fresh [OF g]
  have m: "commit (add (SessionLocal s) (dirty proj (new, False))) = Inr (SessionLocal s2)"
    using u p(2) by (simp add: dirty_def commit_update_fresh)
  have r: "refresh_ProjectDB (SessionLocal s2) (p_id new)
             = Inr (write_project s (changed proj new) proj)"
    using p u by (rule refresh_after_update)
  show ?thesis
    by (simp add: patch_project_def g c l Let_def commit_or_rollback_ok_eq [OF m] r)
qed

lemma patch_project_success:
  assumes g: "get_ProjectDB (SessionLocal s) (VInt pid) = Inr (Some proj)"
    and r: "patch_project base (SessionLocal s) pid body = (db', Inr (code, row))"
  shows "\<exists>new. patch_loop base body (proj, False) = Inr (new, False)
           \<and> owner_check (SessionLocal s) body = None
           \<and> code = 200
           \<and> row = write_project s (changed proj new) proj
           \<and> db' = SessionLocal
                     (s\<lparr>projects := map (\<lambda>q. if p_id q = VInt pid
                                               then write_project s (changed proj new) q else q)
                                       (projects s)\<rparr>)"
proof -
  note p = get_ProjectDB_fresh [OF g]
  have c: "owner_check (SessionLocal s) body = None"
    using r by (cases "owner_check (SessionLocal s) body") (simp_all add: patch_project_def g)
  obtain new orphan where l: "patch_loop base body (proj, False) = Inr (new, orphan)"
    using r c by (cases "patch_loop base body (proj, False)") (auto simp: patch_project_def g)
  have o: "\<not> orphan"
  proof
    assume "orphan"
    then show False
      using r
      by (simp add: patch_project_def g c l Let_def dirty_def
            commit_or_rollback_ok_eq [OF commit_delete_fresh])
  qed
  obtain s2 where u: "update_project_row s (VInt pid) (changed proj new) = Inr s2"
  proof (cases "update_project_row s (VInt pid) (changed proj new)")
    case (Inl e)
    then have "commit (add (SessionLocal s) (dirty proj (new, orphan))) = Inl e"
      using o p(2) by (simp add: dirty_def commit_update_fresh)
    then have False
      using r o
      by (auto simp: patch_project_def g c l Let_def commit_or_rollback_def
            split: db_error.splits)
    then show ?thesis ..
  next
    case (Inr s2)
    then show ?thesis by (rule that)
  qed
  have l': "patch_loop base body (proj, False) = Inr (new, False)"
    using l o by simp
  from patch_project_ok [OF g c l' u] r
  have "db' = SessionLocal s2" "code = 200" "row = write_project s (changed proj new) proj"
    by simp_all
  with update_project_row_shape [OF u] l' c show ?thesis by auto
qed

lemma update_name_ok:
  assumes "int64 pid"
  shows "update_project_row s (VInt pid) [(''name'', VStr n)]
           = Inr (s\<lparr>projects := map (\<lambda>q. if p_id q = VInt pid then q\<lparr>p_name := VStr n\<rparr> else q)
                                     (projects s)\<rparr>)"
  using assms
  by (simp add: update_project_row_def project_column_violation_def project_affinity_def
        write_project_def set_project_column_def)

lemma owner_check_absent:
  assumes "map_of body ''owner_id'' = Some k" and "binds k"
    and "k = VNull \<or> integer_affinity s k \<notin> set (map u_id (users s))"
  shows "owner_check (SessionLocal s) body = Some (HTTPException 404 ''Owner user not found'')"
  using assms by (auto simp: owner_check_def get_UserDB_def find_absent)

lemma owner_check_overflow:
  assumes "map_of body ''owner_id'' = Some k" and "\<not> binds k"
  shows "owner_check (SessionLocal s) body = Some (Unhandled OverflowError)"
  using assms by (simp add: owner_check_def get_UserDB_def)

text \<open>
  C8, as the specification states it, fails: the loop of the handler writes every key that
  \<^verbatim>\<open>hasattr\<close> finds on the project, and it finds the relationship \<^verbatim>\<open>owner\<close>.
  A PATCH of project 1 whose body is \<^verbatim>\<open>{"owner": null}\<close> supplies no field of the
  project; it deletes the row and then fails to refresh it.
\<close>

theorem patch_project_owner_null_counterexample:
  "get_ProjectDB (SessionLocal campus) (VInt 1) = Inr (Some proj_a)
   \<and> patch_project declarative_base (SessionLocal campus) 1 [(''owner'', VNull)]
       = (SessionLocal (campus\<lparr>projects := [proj_b, proj_c]\<rparr>),
          Inl (Unhandled InvalidRequestError))"
proof -
  have g: "get_ProjectDB (SessionLocal campus) (VInt 1) = Inr (Some proj_a)"
    by (simp add: get_ProjectDB_int campus_def proj_a_def)
  have d: "delete_project_row campus (VInt 1) = campus\<lparr>projects := [proj_b, proj_c]\<rparr>"
    by (simp add: delete_project_row_def campus_def proj_a_def proj_b_def proj_c_def)
  have "patch_project declarative_base (SessionLocal campus) 1 [(''owner'', VNull)]
       = (SessionLocal (campus\<lparr>projects := [proj_b, proj_c]\<rparr>),
          Inl (Unhandled InvalidRequestError))"
    by (simp add: patch_project_def g owner_check_def hasattr_project_def setattr_project_def
          project_columns_def dirty_def Let_def
          commit_or_rollback_ok_eq [OF commit_delete_fresh])
       (simp add: proj_a_def d [simplified])
  with g show ?thesis by simp
qed

text \<open>
  C8, amended. For a stored project, a PATCH that is answered with the project is
  answered 200, and the row it returns keeps every attribute whose name is not a key of
  the body and holds, for every key of the body that is a column, the value of the body
  as the store keeps it in that column; the row is in the committed store, where the
  users, the courses and the projects with another id are as before. Given a project
  with name A and description B, PATCH {"name": "C"} is answered 200 with name C and
  description B. When the body has the key owner_id and its value is null or, as an
  integer of 64 bits, the key of no user, the answer is 404 and the session is
  unchanged; when the value is an integer beyond 64 bits, the lookup raises instead,
  with the session unchanged.
\<close>

theorem patch_project_frame:
  "(get_ProjectDB (SessionLocal s) (VInt project_id) = Inr (Some proj)
      \<and> patch_project base (SessionLocal s) project_id partial_project = (db', Inr (code, row))
    \<longrightarrow> code = 200
        \<and> (\<forall>f. f \<notin> fst ` set partial_project \<longrightarrow>
              getattr_project row f = getattr_project proj f)
        \<and> (\<forall>f v. distinct (map fst partial_project) \<and> (f, v) \<in> set partial_project
                  \<and> f \<in> set project_columns \<longrightarrow>
              getattr_project row f
                = (if v = getattr_project proj f then v else project_affinity s f v))
        \<and> row \<in> set (projects (durable db'))
        \<and> pending db' = [] \<and> txn db' = durable db'
        \<and> users (durable db') = users s \<and> courses (durable db') = courses s
        \<and> length (projects (durable db')) = length (projects s)
        \<and> (\<forall>i < length (projects s). p_id (projects s ! i) \<noteq> VInt project_id \<longrightarrow>
              projects (durable db') ! i = projects s ! i))
   \<and> (get_ProjectDB (SessionLocal s) (VInt project_id) = Inr (Some proj)
        \<and> p_name proj = VStr ''A'' \<and> p_description proj = VStr ''B'' \<longrightarrow>
      patch_project base (SessionLocal s) project_id [(''name'', VStr ''C'')]
        = (SessionLocal
             (s\<lparr>projects := map (\<lambda>q. if p_id q = VInt project_id then q\<lparr>p_name := VStr ''C''\<rparr>
                                       else q) (projects s)\<rparr>),
           Inr (200, proj\<lparr>p_name := VStr ''C''\<rparr>))
      \<and> p_name (proj\<lparr>p_name := VStr ''C''\<rparr>) = VStr ''C''
      \<and> p_description (proj\<lparr>p_name := VStr ''C''\<rparr>) = VStr ''B'')
   \<and> (get_ProjectDB (SessionLocal s) (VInt project_id) = Inr (Some proj)
        \<and> map_of partial_project ''owner_id'' = Some k \<and> binds k
        \<and> (k = VNull \<or> integer_affinity s k \<notin> set (map u_id (users s))) \<longrightarrow>
      patch_project base (SessionLocal s) project_id partial_project
        = (SessionLocal s, Inl (HTTPException 404 ''Owner user not found'')))
   \<and> (get_ProjectDB (SessionLocal s) (VInt project_id) = Inr (Some proj)
        \<and> map_of partial_project ''owner_id'' = Some k \<and> \<not> binds k \<longrightarrow>
      patch_project base (SessionLocal s) project_id partial_project
        = (SessionLocal s, Inl (Unhandled OverflowError)))"
proof -
  have 1: "get_ProjectDB (SessionLocal s) (VInt project_id) = Inr (Some proj)
      \<and> patch_project base (SessionLocal s) project_id partial_project = (db', Inr (code, row))
    \<longrightarrow> code = 200
        \<and> (\<forall>f. f \<notin> fst ` set partial_project \<longrightarrow>
              getattr_project row f = getattr_project proj f)
        \<and> (\<forall>f v. distinct (map fst partial_project) \<and> (f, v) \<in> set partial_project
                  \<and> f \<in> set project_columns \<longrightarrow>
              getattr_project row f
                = (if v = getattr_project proj f then v else project_affinity s f v))
        \<and> row \<in> set (projects (durable db'))
        \<and> pending db' = [] \<and> txn db' = durable db'
        \<and> users (durable db') = users s \<and> courses (durable db') = courses s
        \<and> length (projects (durable db')) = length (projects s)
        \<and> (\<forall>i < length (projects s). p_id (projects s ! i) \<noteq> VInt project_id \<longrightarrow>
              projects (durable db') ! i = projects s ! i)"
  proof (intro impI, elim conjE)
    assume g: "get_ProjectDB (SessionLocal s) (VInt project_id) = Inr (Some proj)"
      and r: "patch_project base (SessionLocal s) project_id partial_project
                = (db', Inr (code, row))"
    from patch_project_success [OF g r] obtain new where
      l: "patch_loop base partial_project (proj, False) = Inr (new, False)" and
      c: "code = 200" and
      w: "row = write_project s (changed proj new) proj" and
      d: "db' = SessionLocal
                  (s\<lparr>projects := map (\<lambda>q. if p_id q = VInt project_id
                                            then write_project s (changed proj new) q else q)
                                    (projects s)\<rparr>)"
      by blast
    note p = get_ProjectDB_fresh [OF g]
    have a: "getattr_project row f = getattr_project proj f"
      if "f \<notin> fst ` set partial_project" for f
      using patch_loop_frame [OF l that] by (simp add: w write_changed_getattr)
    have b: "getattr_project row f
               = (if v = getattr_project proj f then v else project_affinity s f v)"
      if "distinct (map fst partial_project)" "(f, v) \<in> set partial_project"
        "f \<in> set project_columns" for f v
      using patch_loop_supplied [OF l that] that(3) by (auto simp: w write_changed_getattr)
    have m: "row \<in> set (projects (durable db'))"
    proof -
      have "proj \<in> set (projects s)" using p(1) by (auto simp: find_Some_iff)
      then show ?thesis
        unfolding d w using p(2) by (auto simp: image_iff intro!: bexI [of _ proj])
    qed
    show "code = 200
        \<and> (\<forall>f. f \<notin> fst ` set partial_project \<longrightarrow>
              getattr_project row f = getattr_project proj f)
        \<and> (\<forall>f v. distinct (map fst partial_project) \<and> (f, v) \<in> set partial_project
                  \<and> f \<in> set project_columns \<longrightarrow>
              getattr_project row f
                = (if v = getattr_project proj f then v else project_affinity s f v))
        \<and> row \<in> set (projects (durable db'))
        \<and> pending db' = [] \<and> txn db' = durable db'
        \<and> users (durable db') = users s \<and> courses (durable db') = courses s
        \<and> length (projects (durable db')) = length (projects s)
        \<and> (\<forall>i < length (projects s). p_id (projects s ! i) \<noteq> VInt project_id \<longrightarrow>
              projects (durable db') ! i = projects s ! i)"
      using c a b m by (simp add: d)
  qed
  have 2: "get_ProjectDB (SessionLocal s) (VInt project_id) = Inr (Some proj)
        \<and> p_name proj = VStr ''A'' \<and> p_description proj = VStr ''B'' \<longrightarrow>
      patch_project base (SessionLocal s) project_id [(''name'', VStr ''C'')]
        = (SessionLocal
             (s\<lparr>projects := map (\<lambda>q. if p_id q = VInt project_id then q\<lparr>p_name := VStr ''C''\<rparr>
                                       else q) (projects s)\<rparr>),
           Inr (200, proj\<lparr>p_name := VStr ''C''\<rparr>))
      \<and> p_name (proj\<lparr>p_name := VStr ''C''\<rparr>) = VStr ''C''
      \<and> p_description (proj\<lparr>p_name := VStr ''C''\<rparr>) = VStr ''B''"
  proof (intro impI, elim conjE)
    assume g: "get_ProjectDB (SessionLocal s) (VInt project_id) = Inr (Some proj)"
      and n: "p_name proj = VStr ''A''" and e: "p_description proj = VStr ''B''"
    note p = get_ProjectDB_fresh [OF g]
    have c: "owner_check (SessionLocal s) [(''name'', VStr ''C'')] = None"
      by (simp add: owner_check_def)
    have l: "patch_loop base [(''name'', VStr ''C'')] (proj, False)
               = Inr (proj\<lparr>p_name := VStr ''C''\<rparr>, False)"
      by (simp add: hasattr_project_def setattr_project_def project_columns_def
            set_project_column_def)
    have ch: "changed proj (proj\<lparr>p_name := VStr ''C''\<rparr>) = [(''name'', VStr ''C'')]"
      using n by (simp add: changed_def project_columns_def getattr_project_def)
    have u: "update_project_row s (VInt project_id) (changed proj (proj\<lparr>p_name := VStr ''C''\<rparr>))
               = Inr (s\<lparr>projects := map (\<lambda>q. if p_id q = VInt project_id
                                                then q\<lparr>p_name := VStr ''C''\<rparr> else q)
                                        (projects s)\<rparr>)"
      unfolding ch using p(3) by (rule update_name_ok)
    have w: "write_project s [(''name'', VStr ''C'')] proj = proj\<lparr>p_name := VStr ''C''\<rparr>"
      by (simp add: write_project_def set_project_column_def project_affinity_def)
    from patch_project_ok [OF g c l u] e
    show "patch_project base (SessionLocal s) project_id [(''name'', VStr ''C'')]
        = (SessionLocal
             (s\<lparr>projects := map (\<lambda>q. if p_id q = VInt project_id then q\<lparr>p_name := VStr ''C''\<rparr>
                                       else q) (projects s)\<rparr>),
           Inr (200, proj\<lparr>p_name := VStr ''C''\<rparr>))
      \<and> p_name (proj\<lparr>p_name := VStr ''C''\<rparr>) = VStr ''C''
      \<and> p_description (proj\<lparr>p_name := VStr ''C''\<rparr>) = VStr ''B''"
      by (simp add: ch w)
  qed
  have 3: "get_ProjectDB (SessionLocal s) (VInt project_id) = Inr (Some proj)
        \<and> map_of partial_project ''owner_id'' = Some k \<and> binds k
        \<and> (k = VNull \<or> integer_affinity s k \<notin> set (map u_id (users s))) \<longrightarrow>
      patch_project base (SessionLocal s) project_id partial_project
        = (SessionLocal s, Inl (HTTPException 404 ''Owner user not found''))"
  proof (intro impI, elim conjE)
    assume g: "get_ProjectDB (SessionLocal s) (VInt project_id) = Inr (Some proj)"
      and h: "map_of partial_project ''owner_id'' = Some k" "binds k"
        "k = VNull \<or> integer_affinity s k \<notin> set (map u_id (users s))"
    show "patch_project base (SessionLocal s) project_id partial_project
        = (SessionLocal s, Inl (HTTPException 404 ''Owner user not found''))"
      using g owner_check_absent [OF h] by (simp add: patch_project_def)
  qed
  have 4: "get_ProjectDB (SessionLocal s) (VInt project_id) = Inr (Some proj)
        \<and> map_of partial_project ''owner_id'' = Some k \<and> \<not> binds k \<longrightarrow>
      patch_project base (SessionLocal s) project_id partial_project
        = (SessionLocal s, Inl (Unhandled OverflowError))"
  proof (intro impI, elim conjE)
    assume g: "get_ProjectDB (SessionLocal s) (VInt project_id) = Inr (Some proj)"
      and h: "map_of partial_project ''owner_id'' = Some k" "\<not> binds k"
    show "patch_project base (SessionLocal s) project_id partial_project
        = (SessionLocal s, Inl (Unhandled OverflowError))"
      using g owner_check_overflow [OF h] by (simp add: patch_project_def)
  qed
  from 1 2 3 4 show ?thesis
    by (intro conjI)
qed


theorem patch_project_frame_witness:
  "get_ProjectDB (SessionLocal campus) (VInt 1) = Inr (Some proj_a)
   \<and> p_name proj_a = VStr ''A'' \<and> p_description proj_a = VStr ''B''
   \<and> patch_project declarative_base (SessionLocal campus) 1 [(''name'', VStr ''C'')]
       = (SessionLocal (campus\<lparr>projects := [proj_a\<lparr>p_name := VStr ''C''\<rparr>, proj_b, proj_c]\<rparr>),
          Inr (200, proj_a\<lparr>p_name := VStr ''C''\<rparr>))
   \<and> getattr_project (proj_a\<lparr>p_name := VStr ''C''\<rparr>) ''description''
       = getattr_project proj_a ''description''
   \<and> getattr_project (proj_a\<lparr>p_name := VStr ''C''\<rparr>) ''owner_id''
       = getattr_project proj_a ''owner_id''
   \<and> getattr_project (proj_a\<lparr>p_name := VStr ''C''\<rparr>) ''name'' = VStr ''C''
   \<and> VInt 7 \<notin> set (map u_id (users campus))
   \<and> patch_project declarative_base (SessionLocal campus) 1 [(''owner_id'', VInt 7)]
       = (SessionLocal campus, Inl (HTTPException 404 ''Owner user not found''))
   \<and> patch_project declarative_base (SessionLocal campus) 1
        [(''name'', VStr ''C''), (''owner_id'', VNull)]
       = (SessionLocal campus, Inl (HTTPException 404 ''Owner user not found''))
   \<and> patch_project declarative_base (SessionLocal campus) 1
        [(''owner_id'', VInt 9223372036854775808)]
       = (SessionLocal campus, Inl (Unhandled OverflowError))"
proof -
  let ?body = "[(''name'', VStr ''C'')]"
  let ?row = "proj_a\<lparr>p_name := VStr ''C''\<rparr>"
  let ?db = "SessionLocal (campus\<lparr>projects := [?row, proj_b, proj_c]\<rparr>)"
  have g: "get_ProjectDB (SessionLocal campus) (VInt 1) = Inr (Some proj_a)"
    by (simp add: get_ProjectDB_int campus_def proj_a_def)
  have n: "p_name proj_a = VStr ''A''" "p_description proj_a = VStr ''B''"
    by (simp_all add: proj_a_def)
  have a2: "get_ProjectDB (SessionLocal campus) (VInt 1) = Inr (Some proj_a)
              \<and> p_name proj_a = VStr ''A'' \<and> p_description proj_a = VStr ''B''"
    using g n by simp
  have m: "map (\<lambda>q. if p_id q = VInt 1 then q\<lparr>p_name := VStr ''C''\<rparr> else q) (projects campus)
             = [?row, proj_b, proj_c]"
    by (simp add: campus_def proj_a_def proj_b_def proj_c_def)
  note t2 = patch_project_frame
              [where s = campus and project_id = 1 and proj = proj_a and base = declarative_base,
               THEN conjunct2, THEN conjunct1, THEN mp, OF a2, THEN conjunct1, unfolded m]
  have a1: "get_ProjectDB (SessionLocal campus) (VInt 1) = Inr (Some proj_a)
              \<and> patch_project declarative_base (SessionLocal campus) 1 ?body
                  = (?db, Inr (200, ?row))"
    using g t2 by simp
  note t1 = patch_project_frame
              [where s = campus and project_id = 1 and proj = proj_a and base = declarative_base
                 and partial_project = ?body and db' = ?db and code = 200 and row = ?row,
               THEN conjunct1, THEN mp, OF a1]
  have d: "''description'' \<notin> fst ` set ?body" "''owner_id'' \<notin> fst ` set ?body"
    by simp_all
  have s: "distinct (map fst ?body) \<and> (''name'', VStr ''C'') \<in> set ?body
             \<and> ''name'' \<in> set project_columns"
    by (simp add: project_columns_def)
  note f1 = t1 [THEN conjunct2, THEN conjunct1, THEN spec, THEN mp, OF d(1)]
  note f2 = t1 [THEN conjunct2, THEN conjunct1, THEN spec, THEN mp, OF d(2)]
  note f3 = t1 [THEN conjunct2, THEN conjunct2, THEN conjunct1, THEN spec, THEN spec, THEN mp,
                OF s]
  have f3': "getattr_project ?row ''name'' = VStr ''C''"
    using f3 by (simp add: project_affinity_def split: if_splits)
  have h: "VInt 7 \<notin> set (map u_id (users campus))"
    by (simp add: campus_def ann_def bob_def)
  have a3: "get_ProjectDB (SessionLocal campus) (VInt 1) = Inr (Some proj_a)
        \<and> map_of [(''owner_id'', VInt 7)] ''owner_id'' = Some (VInt 7) \<and> binds (VInt 7)
        \<and> (VInt 7 = VNull \<or> integer_affinity campus (VInt 7) \<notin> set (map u_id (users campus)))"
    using g h by simp
  note t3 = patch_project_frame
              [where s = campus and project_id = 1 and proj = proj_a and base = declarative_base
                 and partial_project = "[(''owner_id'', VInt 7)]" and k = "VInt 7",
               THEN conjunct2, THEN conjunct2, THEN conjunct1, THEN mp, OF a3]
  have a3': "get_ProjectDB (SessionLocal campus) (VInt 1) = Inr (Some proj_a)
        \<and> map_of [(''name'', VStr ''C''), (''owner_id'', VNull)] ''owner_id'' = Some VNull
        \<and> binds VNull
        \<and> (VNull = VNull \<or> integer_affinity campus VNull \<notin> set (map u_id (users campus)))"
    using g by simp
  note t3' = patch_project_frame
              [where s = campus and project_id = 1 and proj = proj_a and base = declarative_base
                 and partial_project = "[(''name'', VStr ''C''), (''owner_id'', VNull)]"
                 and k = VNull,
               THEN conjunct2, THEN conjunct2, THEN conjunct1, THEN mp, OF a3']
  have a4: "get_ProjectDB (SessionLocal campus) (VInt 1) = Inr (Some proj_a)
        \<and> map_of [(''owner_id'', VInt 9223372036854775808)] ''owner_id''
            = Some (VInt 9223372036854775808)
        \<and> \<not> binds (VInt 9223372036854775808)"
    using g by simp
  note t4 = patch_project_frame
              [where s = campus and project_id = 1 and proj = proj_a and base = declarative_base
                 and partial_project = "[(''owner_id'', VInt 9223372036854775808)]"
                 and k = "VInt 9223372036854775808",
               THEN conjunct2, THEN conjunct2, THEN conjunct2, THEN mp, OF a4]
  from g n t2 f1 f2 f3' h t3 t3' t4 show ?thesis
    by (intro conjI)
qed

lemma patch_project_owner_text:
  "patch_project declarative_base (SessionLocal campus) 1 [(''owner_id'', VStr ''2'')]
     = (SessionLocal (campus\<lparr>projects := [proj_a\<lparr>p_owner_id := VInt 2\<rparr>, proj_b, proj_c]\<rparr>),
        Inr (200, proj_a\<lparr>p_owner_id := VInt 2\<rparr>))"
proof -
  have i: "plain_integer ''2'' = Some 2"
    by (simp add: plain_integer_def digit_def Let_def)
  have g: "get_ProjectDB (SessionLocal campus) (VInt 1) = Inr (Some proj_a)"
    by (simp add: get_ProjectDB_int campus_def proj_a_def)
  have a: "integer_affinity campus (VStr ''2'') = VInt 2"
    by (simp add: integer_affinity_def campus_def i)
  have c: "owner_check (SessionLocal campus) [(''owner_id'', VStr ''2'')] = None"
    by (simp add: owner_check_def get_UserDB_def a) (simp add: campus_def ann_def bob_def)
  have l: "patch_loop declarative_base [(''owner_id'', VStr ''2'')] (proj_a, False)
             = Inr (proj_a\<lparr>p_owner_id := VStr ''2''\<rparr>, False)"
    by (simp add: hasattr_project_def setattr_project_def project_columns_def
          set_project_column_def)
  have ch: "changed proj_a (proj_a\<lparr>p_owner_id := VStr ''2''\<rparr>) = [(''owner_id'', VStr ''2'')]"
    by (simp add: changed_def project_columns_def getattr_project_def proj_a_def)
  have w: "write_project campus [(''owner_id'', VStr ''2'')] q = q\<lparr>p_owner_id := VInt 2\<rparr>" for q
    by (simp add: write_project_def set_project_column_def project_affinity_def a)
  have u: "update_project_row campus (VInt 1) (changed proj_a (proj_a\<lparr>p_owner_id := VStr ''2''\<rparr>))
             = Inr (campus\<lparr>projects := [proj_a\<lparr>p_owner_id := VInt 2\<rparr>, proj_b, proj_c]\<rparr>)"
    unfolding ch
    by (simp add: update_project_row_def project_column_violation_def project_affinity_def a w
          cong: if_cong)
       (simp add: campus_def proj_a_def proj_b_def proj_c_def)
  from patch_project_ok [OF g c l u] show ?thesis
    by (simp add: ch w)
qed

lemma plain_text_5: "plain_text 5 = ''5''"
proof -
  have "char_of (53::nat) = CHR ''5''"
    by (simp add: char_of_def bit_iff_odd)
  then show ?thesis
    by (simp add: plain_text_def)
qed

lemma patch_project_name_integer:
  "patch_project declarative_base (SessionLocal campus) 1 [(''name'', VInt 5)]
     = (SessionLocal (campus\<lparr>projects := [proj_a\<lparr>p_name := VStr ''5''\<rparr>, proj_b, proj_c]\<rparr>),
        Inr (200, proj_a\<lparr>p_name := VStr ''5''\<rparr>))"
proof -
  have t: "text_affinity campus (VInt 5) = VStr ''5''"
    by (simp add: text_affinity_def campus_def plain_text_5)
  have g: "get_ProjectDB (SessionLocal campus) (VInt 1) = Inr (Some proj_a)"
    by (simp add: get_ProjectDB_int campus_def proj_a_def)
  have c: "owner_check (SessionLocal campus) [(''name'', VInt 5)] = None"
    by (simp add: owner_check_def)
  have l: "patch_loop declarative_base [(''name'', VInt 5)] (proj_a, False)
             = Inr (proj_a\<lparr>p_name := VInt 5\<rparr>, False)"
    by (simp add: hasattr_project_def setattr_project_def project_columns_def
          set_project_column_def)
  have ch: "changed proj_a (proj_a\<lparr>p_name := VInt 5\<rparr>) = [(''name'', VInt 5)]"
    by (simp add: changed_def project_columns_def getattr_project_def proj_a_def)
  have w: "write_project campus [(''name'', VInt 5)] q = q\<lparr>p_name := VStr ''5''\<rparr>" for q
    by (simp add: write_project_def set_project_column_def project_affinity_def t)
  have u: "update_project_row campus (VInt 1) (changed proj_a (proj_a\<lparr>p_name := VInt 5\<rparr>))
             = Inr (campus\<lparr>projects := [proj_a\<lparr>p_name := VStr ''5''\<rparr>, proj_b, proj_c]\<rparr>)"
    unfolding ch
    by (simp add: update_project_row_def project_column_violation_def project_affinity_def t w
          cong: if_cong)
       (simp add: campus_def proj_a_def proj_b_def proj_c_def)
  from patch_project_ok [OF g c l u] show ?thesis
    by (simp add: ch w)
qed

section \<open>The commit helper in the handlers\<close>

lemma query_update_users_durable:
  "query_update_users db user_id vals = Inr (db1, n) \<Longrightarrow> durable db1 = durable db"
  by (auto simp: query_update_users_def Let_def split: if_splits)

lemma rollback_durable: "durable db1 = durable db \<Longrightarrow> rollback db1 = rollback db"
  by (simp add: rollback_def)

lemma rolled_back_rollback: "rolled_back db (rollback db)"
  by (simp add: rolled_back_def)

text \<open>
  C1. When the commit of the helper raises the integrity error, the helper rolls the
  session back and signals 409 with the message of its caller; the rolled back session
  holds the committed store of before and nothing pending. When the commit succeeds, the
  helper signals nothing and returns the committed session. Each of the seven handlers
  that call the helper, in any session: when its checks pass and the commit of what it
  has put in the session raises the integrity error, the handler answers 409 with its
  own message and leaves the session rolled back.
\<close>

theorem commit_or_rollback_conflict:
  "(commit db = Inl IntegrityError \<longrightarrow>
      commit_or_rollback db msg = (rollback db, Inl (HTTPException 409 msg)))
   \<and> rolled_back db (rollback db)
   \<and> (commit db = Inr db' \<longrightarrow> commit_or_rollback db msg = (db', Inr ()))
   \<and> (commit (add db (Insert_course attrs)) = Inl IntegrityError \<longrightarrow>
        create_course db attrs
          = (rollback db, Inl (HTTPException 409 ''Course already exists'')))
   \<and> (get_UserDB db (VInt (pc_owner_id project)) = Inr (Some user)
        \<and> commit (add db (Insert_project
                    \<lparr>p_id = VNull, p_name = VStr (pc_name project),
                      p_description = opt_val (pc_description project),
                      p_owner_id = VInt (pc_owner_id project)\<rparr>)) = Inl IntegrityError \<longrightarrow>
        create_project db project
          = (rollback db, Inl (HTTPException 409 ''Project creation failed'')))
   \<and> (get_ProjectDB db (VInt project_id) = Inr (Some proj)
        \<and> get_UserDB db (VInt (pc_owner_id project)) = Inr (Some user)
        \<and> commit (add db (Update_project (p_id proj)
                    (changed proj
                       (proj\<lparr>p_name := VStr (pc_name project),
                              p_description := opt_val (pc_description project),
                              p_owner_id := VInt (pc_owner_id project)\<rparr>))))
            = Inl IntegrityError \<longrightarrow>
        update_project db project_id project
          = (rollback db, Inl (HTTPException 409 ''Project update failed'')))
   \<and> (get_ProjectDB db (VInt project_id) = Inr (Some proj)
        \<and> owner_check db partial_project = None
        \<and> patch_loop base partial_project (proj, False) = Inr obj
        \<and> commit (add db (dirty proj obj)) = Inl IntegrityError \<longrightarrow>
        patch_project base db project_id partial_project
          = (rollback db, Inl (HTTPException 409 ''Project partial update failed'')))
   \<and> (get_UserDB db (VInt user_id) = Inr (Some user)
        \<and> commit (add db (Insert_project
                    \<lparr>p_id = VNull, p_name = VStr (pf_name user_project),
                      p_description = opt_val (pf_description user_project),
                      p_owner_id = VInt user_id\<rparr>)) = Inl IntegrityError \<longrightarrow>
        create_user_project db user_id user_project
          = (rollback db, Inl (HTTPException 409 ''Project creation failed'')))
   \<and> (query_update_users db user_id (model_dump_user updated_user) = Inr (db1, n) \<and> n \<noteq> 0
        \<and> commit db1 = Inl IntegrityError \<longrightarrow>
        update_user db user_id updated_user
          = (rollback db,
             Inl (HTTPException 409 ''User update failed (duplicate email or student_id)'')))
   \<and> (query_update_users db user_id partial_user = Inr (db1, n) \<and> n \<noteq> 0
        \<and> commit db1 = Inl IntegrityError \<longrightarrow>
        patch_user db user_id partial_user
          = (rollback db, Inl (HTTPException 409 ''User partial update failed'')))"
proof -
  have 1: "commit db = Inl IntegrityError \<longrightarrow>
      commit_or_rollback db msg = (rollback db, Inl (HTTPException 409 msg))"
    by (simp add: commit_or_rollback_def)
  have 2: "rolled_back db (rollback db)"
    by (rule rolled_back_rollback)
  have 3: "commit db = Inr db' \<longrightarrow> commit_or_rollback db msg = (db', Inr ())"
    by (simp add: commit_or_rollback_def)
  have 4: "commit (add db (Insert_course attrs)) = Inl IntegrityError \<longrightarrow>
        create_course db attrs
          = (rollback db, Inl (HTTPException 409 ''Course already exists''))"
    by (simp add: create_course_def Let_def commit_or_rollback_def)
  have 5: "get_UserDB db (VInt (pc_owner_id project)) = Inr (Some user)
        \<and> commit (add db (Insert_project
                    \<lparr>p_id = VNull, p_name = VStr (pc_name project),
                      p_description = opt_val (pc_description project),
                      p_owner_id = VInt (pc_owner_id project)\<rparr>)) = Inl IntegrityError \<longrightarrow>
        create_project db project
          = (rollback db, Inl (HTTPException 409 ''Project creation failed''))"
    by (simp add: create_project_def Let_def commit_or_rollback_def)
  have 6: "get_ProjectDB db (VInt project_id) = Inr (Some proj)
        \<and> get_UserDB db (VInt (pc_owner_id project)) = Inr (Some user)
        \<and> commit (add db (Update_project (p_id proj)
                    (changed proj
                       (proj\<lparr>p_name := VStr (pc_name project),
                              p_description := opt_val (pc_description project),
                              p_owner_id := VInt (pc_owner_id project)\<rparr>))))
            = Inl IntegrityError \<longrightarrow>
        update_project db project_id project
          = (rollback db, Inl (HTTPException 409 ''Project update failed''))"
    by (simp add: update_project_def Let_def model_dump_sets commit_or_rollback_def)
  have 7: "get_ProjectDB db (VInt project_id) = Inr (Some proj)
        \<and> owner_check db partial_project = None
        \<and> patch_loop base partial_project (proj, False) = Inr obj
        \<and> commit (add db (dirty proj obj)) = Inl IntegrityError \<longrightarrow>
        patch_project base db project_id partial_project
          = (rollback db, Inl (HTTPException 409 ''Project partial update failed''))"
    by (simp add: patch_project_def Let_def commit_or_rollback_def)
  have 8: "get_UserDB db (VInt user_id) = Inr (Some user)
        \<and> commit (add db (Insert_project
                    \<lparr>p_id = VNull, p_name = VStr (pf_name user_project),
                      p_description = opt_val (pf_description user_project),
                      p_owner_id = VInt user_id\<rparr>)) = Inl IntegrityError \<longrightarrow>
        create_user_project db user_id user_project
          = (rollback db, Inl (HTTPException 409 ''Project creation failed''))"
    by (simp add: create_user_project_def Let_def commit_or_rollback_def)
  have 9: "query_update_users db user_id (model_dump_user updated_user) = Inr (db1, n) \<and> n \<noteq> 0
        \<and> commit db1 = Inl IntegrityError \<longrightarrow>
        update_user db user_id updated_user
          = (rollback db,
             Inl (HTTPException 409 ''User update failed (duplicate email or student_id)''))"
  proof (intro impI, elim conjE)
    assume q: "query_update_users db user_id (model_dump_user updated_user) = Inr (db1, n)"
      and n: "n \<noteq> 0" and c: "commit db1 = Inl IntegrityError"
    have "rollback db1 = rollback db"
      using query_update_users_durable [OF q] by (rule rollback_durable)
    then show "update_user db user_id updated_user
          = (rollback db,
             Inl (HTTPException 409 ''User update failed (duplicate email or student_id)''))"
      using n by (simp add: update_user_def q commit_or_rollback_def c)
  qed
  have 10: "query_update_users db user_id partial_user = Inr (db1, n) \<and> n \<noteq> 0
        \<and> commit db1 = Inl IntegrityError \<longrightarrow>
        patch_user db user_id partial_user
          = (rollback db, Inl (HTTPException 409 ''User partial update failed''))"
  proof (intro impI, elim conjE)
    assume q: "query_update_users db user_id partial_user = Inr (db1, n)"
      and n: "n \<noteq> 0" and c: "commit db1 = Inl IntegrityError"
    have "rollback db1 = rollback db"
      using query_update_users_durable [OF q] by (rule rollback_durable)
    then show "patch_user db user_id partial_user
          = (rollback db, Inl (HTTPException 409 ''User partial update failed''))"
      using n by (simp add: patch_user_def q commit_or_rollback_def c)
  qed
  from 1 2 3 4 5 6 7 8 9 10 show ?thesis
    by (intro conjI)
qed


theorem commit_or_rollback_conflict_witness:
  "commit (add (SessionLocal campus) (Insert_course ''ccc'')) = Inl IntegrityError
   \<and> commit_or_rollback (add (SessionLocal campus) (Insert_course ''ccc'')) ''m''
       = (SessionLocal campus, Inl (HTTPException 409 ''m''))
   \<and> commit (SessionLocal campus) = Inr (SessionLocal campus)
   \<and> commit_or_rollback (SessionLocal campus) ''m'' = (SessionLocal campus, Inr ())
   \<and> create_course (SessionLocal campus) ''ccc''
       = (SessionLocal campus, Inl (HTTPException 409 ''Course already exists''))
   \<and> patch_project declarative_base (SessionLocal campus) 1 [(''name'', VNull)]
       = (SessionLocal campus, Inl (HTTPException 409 ''Project partial update failed''))
   \<and> update_user
         (add (SessionLocal campus)
            (Insert_user \<lparr>u_id = VNull, u_name = VStr ''Zoe'', u_email = VStr ''b@x.com'',
                           u_student_id = VStr ''S9''\<rparr>))
         1 \<lparr>uc_name = ''Anna'', uc_email = ''anna@x.com'', uc_student_id = ''S7''\<rparr>
       = (SessionLocal campus,
          Inl (HTTPException 409 ''User update failed (duplicate email or student_id)''))"
proof -
  let ?dup = "add (SessionLocal campus) (Insert_course ''ccc'')"
  have k: "''ccc'' \<in> set (map c_fields (courses campus))"
  proof -
    have "c_fields (course 3) = ''ccc''"
      by (simp add: course_def numeral_3_eq_3)
    moreover have "course 3 \<in> set (courses campus)"
      by (simp add: campus_def fifteen_def)
    ultimately show ?thesis
      by (auto simp: image_iff intro!: bexI [of _ "course 3"])
  qed
  have c1: "commit ?dup = Inl IntegrityError"
    using k by (simp add: commit_def insert_course_def Let_def)
  note t1 = commit_or_rollback_conflict
              [where db = ?dup and msg = "''m''", THEN conjunct1, THEN mp, OF c1, simplified]
  have c2: "commit (SessionLocal campus) = Inr (SessionLocal campus)"
    by (simp add: commit_def SessionLocal_def)
  note t2 = commit_or_rollback_conflict
              [where db = "SessionLocal campus" and db' = "SessionLocal campus" and msg = "''m''",
               THEN conjunct2, THEN conjunct2, THEN conjunct1, THEN mp, OF c2]
  note t3 = commit_or_rollback_conflict
              [where db = "SessionLocal campus" and attrs = "''ccc''",
               THEN conjunct2, THEN conjunct2, THEN conjunct2, THEN conjunct1, THEN mp, OF c1,
               simplified]
  have g: "get_ProjectDB (SessionLocal campus) (VInt 1) = Inr (Some proj_a)"
    by (simp add: get_ProjectDB_int campus_def proj_a_def)
  have l: "patch_loop declarative_base [(''name'', VNull)] (proj_a, False)
             = Inr (proj_a\<lparr>p_name := VNull\<rparr>, False)"
    by (simp add: hasattr_project_def setattr_project_def project_columns_def
          set_project_column_def)
  have ch: "changed proj_a (proj_a\<lparr>p_name := VNull\<rparr>) = [(''name'', VNull)]"
    by (simp add: changed_def project_columns_def getattr_project_def proj_a_def)
  have u: "update_project_row campus (VInt 1) [(''name'', VNull)] = Inl IntegrityError"
    by (simp add: update_project_row_def project_column_violation_def project_affinity_def)
  have c4: "commit (add (SessionLocal campus) (dirty proj_a (proj_a\<lparr>p_name := VNull\<rparr>, False)))
              = Inl IntegrityError"
    by (simp add: dirty_def ch commit_update_fresh) (simp add: proj_a_def u)
  have a4: "get_ProjectDB (SessionLocal campus) (VInt 1) = Inr (Some proj_a)
        \<and> owner_check (SessionLocal campus) [(''name'', VNull)] = None
        \<and> patch_loop declarative_base [(''name'', VNull)] (proj_a, False)
            = Inr (proj_a\<lparr>p_name := VNull\<rparr>, False)
        \<and> commit (add (SessionLocal campus) (dirty proj_a (proj_a\<lparr>p_name := VNull\<rparr>, False)))
            = Inl IntegrityError"
    using g l c4 by (simp add: owner_check_def)
  note t4 = commit_or_rollback_conflict
              [where db = "SessionLocal campus" and project_id = 1 and proj = proj_a
                 and partial_project = "[(''name'', VNull)]" and base = declarative_base
                 and obj = "(proj_a\<lparr>p_name := VNull\<rparr>, False)",
               THEN conjunct2, THEN conjunct2, THEN conjunct2, THEN conjunct2, THEN conjunct2,
               THEN conjunct2, THEN conjunct1, THEN mp, OF a4, simplified]
  let ?zoe = "\<lparr>u_id = VNull, u_name = VStr ''Zoe'', u_email = VStr ''b@x.com'',
                u_student_id = VStr ''S9''\<rparr>"
  let ?db = "add (SessionLocal campus) (Insert_user ?zoe)"
  let ?anna = "\<lparr>uc_name = ''Anna'', uc_email = ''anna@x.com'', uc_student_id = ''S7''\<rparr>"
  let ?ann' = "\<lparr>u_id = VInt 1, u_name = VStr ''Anna'', u_email = VStr ''anna@x.com'',
                 u_student_id = VStr ''S7''\<rparr>"
  let ?db1 = "?db\<lparr>txn := campus\<lparr>users := [?ann', bob]\<rparr>\<rparr>"
  have f: "filter (\<lambda>u. u_id u = VInt 1) (users campus) = [ann]"
    "filter (\<lambda>u. u_id u \<noteq> VInt 1) (users campus) = [bob]"
    by (simp_all add: campus_def ann_def bob_def)
  have w: "map (\<lambda>u. if u_id u = VInt 1
                     then write_user campus (model_dump_user ?anna) u else u) (users campus)
             = [?ann', bob]"
    by (simp add: campus_def model_dump_user_def write_user_def set_user_column_def
          user_affinity_def ann_def bob_def)
  have v: "\<not> list_ex (\<lambda>(c, v). user_column_violation [bob] c (user_affinity campus c v))
              (model_dump_user ?anna)"
    by (simp add: model_dump_user_def user_column_violation_def user_affinity_def bob_def)
  have q: "query_update_users ?db 1 (model_dump_user ?anna) = Inr (?db1, 1)"
    unfolding query_update_users_def Let_def
    by (simp add: f w v cong: if_cong) (simp add: model_dump_user_def user_columns_def)
  have z: "insert_user (campus\<lparr>users := [?ann', bob]\<rparr>) ?zoe = Inl IntegrityError"
    by (rule insert_user_duplicate) (simp add: bob_def)
  have c5: "commit ?db1 = Inl IntegrityError"
    by (simp add: commit_def z)
  have a5: "query_update_users ?db 1 (model_dump_user ?anna) = Inr (?db1, 1) \<and> (1::nat) \<noteq> 0
        \<and> commit ?db1 = Inl IntegrityError"
    using q c5 by simp
  note t5 = commit_or_rollback_conflict
              [where db = ?db and user_id = 1 and updated_user = ?anna and ?db1.0 = ?db1
                 and n = 1,
               THEN conjunct2, THEN conjunct2, THEN conjunct2, THEN conjunct2, THEN conjunct2,
               THEN conjunct2, THEN conjunct2, THEN conjunct2, THEN conjunct1, THEN mp, OF a5,
               simplified]
  from c1 t1 c2 t2 t3 t4 t5 show ?thesis
    by (intro conjI)
qed

section \<open>What the update of a user raises by itself\<close>

text \<open>
  The statement of \<^verbatim>\<open>Query.update\<close> runs before the helper is called. In a session
  with nothing pending, a duplicate email is raised by that call, outside the helper, and
  is not answered 409.
\<close>

lemma update_user_duplicate_unhandled:
  "update_user (SessionLocal campus) 1
      \<lparr>uc_name = ''Anna'', uc_email = ''b@x.com'', uc_student_id = ''S7''\<rparr>
     = (SessionLocal campus, Inl (Unhandled IntegrityError))"
proof -
  let ?body = "\<lparr>uc_name = ''Anna'', uc_email = ''b@x.com'', uc_student_id = ''S7''\<rparr>"
  have f: "filter (\<lambda>u. u_id u = VInt 1) (users campus) = [ann]"
    "filter (\<lambda>u. u_id u \<noteq> VInt 1) (users campus) = [bob]"
    by (simp_all add: campus_def ann_def bob_def)
  have v: "list_ex (\<lambda>(c, v). user_column_violation [bob] c (user_affinity campus c v))
             (model_dump_user ?body)"
    by (simp add: model_dump_user_def user_column_violation_def user_affinity_def bob_def)
  have "query_update_users (SessionLocal campus) 1 (model_dump_user ?body) = Inl IntegrityError"
    unfolding query_update_users_def Let_def
    by (simp add: f v cong: if_cong) (simp add: model_dump_user_def user_columns_def)
  then show ?thesis
    by (simp add: update_user_def)
qed

lemma query_update_users_pending:
  "query_update_users db user_id vals = Inr (db1, n) \<Longrightarrow> pending db1 = pending db"
  by (auto simp: query_update_users_def Let_def split: if_splits)

lemma update_user_fresh_no_conflict:
  "update_user (SessionLocal s) user_id updated_user \<noteq> (db', Inl (HTTPException 409 msg))"
proof (cases "query_update_users (SessionLocal s) user_id (model_dump_user updated_user)")
  case (Inl e)
  then show ?thesis by (simp add: update_user_def)
next
  case (Inr r)
  obtain db1 n where r: "r = (db1, n)" by (cases r)
  have "pending db1 = []"
    using query_update_users_pending [OF Inr [unfolded r]] by simp
  then have "commit db1 = Inr \<lparr>durable = txn db1, txn = txn db1, pending = [], inserted = []\<rparr>"
    by (simp add: commit_def)
  then show ?thesis
    by (auto simp: update_user_def Inr r commit_or_rollback_def split: sum.splits option.splits)
qed

lemma patch_user_fresh_no_conflict:
  "patch_user (SessionLocal s) user_id partial_user \<noteq> (db', Inl (HTTPException 409 msg))"
proof (cases "query_update_users (SessionLocal s) user_id partial_user")
  case (Inl e)
  then show ?thesis by (simp add: patch_user_def)
next
  case (Inr r)
  obtain db1 n where r: "r = (db1, n)" by (cases r)
  have "pending db1 = []"
    using query_update_users_pending [OF Inr [unfolded r]] by simp
  then have "commit db1 = Inr \<lparr>durable = txn db1, txn = txn db1, pending = [], inserted = []\<rparr>"
    by (simp add: commit_def)
  then show ?thesis
    by (auto simp: patch_user_def Inr r commit_or_rollback_def split: sum.splits option.splits)
qed

section \<open>Patching with unknown keys\<close>

lemma map_of_filter_known:
  "P k \<Longrightarrow> map_of (filter (\<lambda>(c, v). P c) xs) k = map_of xs k"
  by (induction xs) auto

lemma patch_project_ignores_unknown:
  "patch_project base db project_id partial_project
     = patch_project base db project_id
         (filter (\<lambda>(field, v). hasattr_project base field) partial_project)"
proof -
  have "hasattr_project base ''owner_id''"
    by (simp add: hasattr_project_def project_columns_def)
  then have m: "map_of (filter (\<lambda>(field, v). hasattr_project base field) partial_project)
                  ''owner_id'' = map_of partial_project ''owner_id''"
    by (rule map_of_filter_known)
  show ?thesis
    unfolding patch_project_def owner_check_def m patch_loop_ignores_unknown by (rule refl)
qed

lemma getattr_set_user_other:
  "f \<noteq> c \<Longrightarrow> getattr_user (set_user_column u c v) f = getattr_user u f"
  by (auto simp: getattr_user_def set_user_column_def)

lemma write_user_frame:
  "f \<notin> fst ` set vals \<Longrightarrow> getattr_user (write_user s vals u) f = getattr_user u f"
  unfolding write_user_def
  by (induction vals arbitrary: u) (auto simp: getattr_set_user_other)

lemma u_id_set_user_column:
  "u_id x = u_id y \<Longrightarrow> u_id (set_user_column x c v) = u_id (set_user_column y c v)"
  by (simp add: set_user_column_def)

lemma u_id_write_user:
  "u_id x = u_id y \<Longrightarrow> u_id (write_user s vals x) = u_id (write_user s vals y)"
  unfolding write_user_def
proof (induction vals arbitrary: x y)
  case Nil
  then show ?case by simp
next
  case (Cons a vals)
  obtain c v where a: "a = (c, v)" by (cases a)
  have "u_id (set_user_column x c (user_affinity s c v))
          = u_id (set_user_column y c (user_affinity s c v))"
    using Cons.prems by (rule u_id_set_user_column)
  from Cons.IH [OF this] show ?case by (simp add: a)
qed

lemma find_updated_user:
  assumes "find (\<lambda>x. u_id x = k) (map (\<lambda>x. if u_id x = k then g x else x) xs) = Some row"
    and "find (\<lambda>x. u_id x = k) xs = Some u"
    and "\<And>x. u_id x = k \<Longrightarrow> u_id (g x) = u_id (g u)"
  shows "row = g u"
proof -
  from assms(1) have r: "u_id row = k" "row \<in> set (map (\<lambda>x. if u_id x = k then g x else x) xs)"
    by (auto dest: find_Some_keys)
  then obtain x where x: "x \<in> set xs" "row = (if u_id x = k then g x else x)"
    by auto
  with r have xk: "u_id x = k" by (auto split: if_splits)
  with x r have "u_id (g x) = k" by simp
  with assms(3) [OF xk] have gk: "u_id (g u) = k" by simp
  from assms(1,2) show ?thesis
  proof (induction xs)
    case Nil
    then show ?case by simp
  next
    case (Cons y ys)
    show ?case
    proof (cases "u_id y = k")
      case True
      with Cons.prems gk assms(3) [OF True] show ?thesis by simp
    next
      case False
      with Cons show ?thesis by simp
    qed
  qed
qed

lemma patch_user_frame:
  assumes g: "get_UserDB (SessionLocal s) (VInt user_id) = Inr (Some u)"
    and r: "patch_user (SessionLocal s) user_id partial_user = (db', Inr (code, row))"
    and f: "f \<notin> fst ` set partial_user"
  shows "getattr_user row f = getattr_user u f"
proof -
  let ?k = "VInt user_id"
  let ?table = "map (\<lambda>x. if u_id x = ?k then write_user s partial_user x else x) (users s)"
  let ?s' = "s\<lparr>users := ?table\<rparr>"
  from g have i: "int64 user_id" and gu: "find (\<lambda>x. u_id x = ?k) (users s) = Some u"
    by (auto simp: get_UserDB_int split: if_splits)
  from r obtain db1 n where q: "query_update_users (SessionLocal s) user_id partial_user = Inr (db1, n)"
    by (auto simp: patch_user_def split: sum.splits)
  then have db1: "db1 = (SessionLocal s)\<lparr>txn := ?s'\<rparr>"
    by (auto simp: query_update_users_def Let_def split: if_splits)
  have c: "commit db1 = Inr \<lparr>durable = ?s', txn = ?s', pending = [], inserted = []\<rparr>"
    by (simp add: db1 commit_def)
  from r q have "get_UserDB \<lparr>durable = ?s', txn = ?s', pending = [], inserted = []\<rparr> ?k
                   = Inr (Some row)"
    by (auto simp: patch_user_def commit_or_rollback_ok_eq [OF c]
          split: if_splits sum.splits option.splits)
  then have "find (\<lambda>x. u_id x = ?k) ?table = Some row"
    using i by (simp add: get_UserDB_int)
  moreover have "u_id (write_user s partial_user x) = u_id (write_user s partial_user u)"
    if "u_id x = ?k" for x
    using that gu by (intro u_id_write_user) (auto dest: find_Some_keys)
  ultimately have "row = write_user s partial_user u"
    using gu by (intro find_updated_user [where xs = "users s" and k = ?k]) auto
  then show ?thesis
    using f by (simp add: write_user_frame)
qed

text \<open>
  C2. A PATCH of a stored user whose body has a key that names no column of the user is
  not answered as if the key were absent: \<^verbatim>\<open>Query.update\<close> raises on the key,
  nothing catches it and no column of the body is written. Without the unknown key the
  same request writes the name. The PATCH of a project with the same unknown key
  succeeds and writes the name: there the loop skips the keys that
  \<^verbatim>\<open>hasattr\<close> does not find.
\<close>

theorem patch_user_unknown_key_raises:
  "patch_user (SessionLocal campus) 1 [(''name'', VStr ''Anna''), (''nickname'', VStr ''An'')]
     = (SessionLocal campus, Inl (Unhandled CompileError))
   \<and> patch_user (SessionLocal campus) 1 [(''name'', VStr ''Anna'')]
     = (SessionLocal (campus\<lparr>users := [ann\<lparr>u_name := VStr ''Anna''\<rparr>, bob]\<rparr>),
        Inr (200, ann\<lparr>u_name := VStr ''Anna''\<rparr>))
   \<and> patch_project declarative_base (SessionLocal campus) 1
        [(''name'', VStr ''C''), (''nickname'', VStr ''An'')]
     = (SessionLocal (campus\<lparr>projects := [proj_a\<lparr>p_name := VStr ''C''\<rparr>, proj_b, proj_c]\<rparr>),
        Inr (200, proj_a\<lparr>p_name := VStr ''C''\<rparr>))"
proof (intro conjI)
  show "patch_user (SessionLocal campus) 1 [(''name'', VStr ''Anna''), (''nickname'', VStr ''An'')]
     = (SessionLocal campus, Inl (Unhandled CompileError))"
    by (simp add: patch_user_def query_update_users_def user_columns_def)
  show "patch_user (SessionLocal campus) 1 [(''name'', VStr ''Anna'')]
     = (SessionLocal (campus\<lparr>users := [ann\<lparr>u_name := VStr ''Anna''\<rparr>, bob]\<rparr>),
        Inr (200, ann\<lparr>u_name := VStr ''Anna''\<rparr>))"
  proof -
    let ?s' = "campus\<lparr>users := [ann\<lparr>u_name := VStr ''Anna''\<rparr>, bob]\<rparr>"
    have f: "filter (\<lambda>u. u_id u = VInt 1) (users campus) = [ann]"
      "filter (\<lambda>u. u_id u \<noteq> VInt 1) (users campus) = [bob]"
      by (simp_all add: campus_def ann_def bob_def)
    have w: "map (\<lambda>u. if u_id u = VInt 1 then write_user campus [(''name'', VStr ''Anna'')] u
                       else u) (users campus) = [ann\<lparr>u_name := VStr ''Anna''\<rparr>, bob]"
      by (simp add: campus_def write_user_def set_user_column_def user_affinity_def ann_def
            bob_def)
    have q: "query_update_users (SessionLocal campus) 1 [(''name'', VStr ''Anna'')]
               = Inr ((SessionLocal campus)\<lparr>txn := ?s'\<rparr>, 1)"
      unfolding query_update_users_def Let_def
      by (simp add: f w user_column_violation_def user_affinity_def user_columns_def
            cong: if_cong)
    have c: "commit ((SessionLocal campus)\<lparr>txn := ?s'\<rparr>) = Inr (SessionLocal ?s')"
      by (simp add: commit_def SessionLocal_def)
    have g: "get_UserDB (SessionLocal ?s') (VInt 1) = Inr (Some (ann\<lparr>u_name := VStr ''Anna''\<rparr>))"
      by (simp add: get_UserDB_int ann_def)
    show ?thesis
      by (simp add: patch_user_def q commit_or_rollback_ok_eq [OF c] g)
  qed
  show "patch_project declarative_base (SessionLocal campus) 1
        [(''name'', VStr ''C''), (''nickname'', VStr ''An'')]
     = (SessionLocal (campus\<lparr>projects := [proj_a\<lparr>p_name := VStr ''C''\<rparr>, proj_b, proj_c]\<rparr>),
        Inr (200, proj_a\<lparr>p_name := VStr ''C''\<rparr>))"
  proof -
    have g: "get_ProjectDB (SessionLocal campus) (VInt 1) = Inr (Some proj_a)"
      by (simp add: get_ProjectDB_int campus_def proj_a_def)
    have c: "owner_check (SessionLocal campus)
               [(''name'', VStr ''C''), (''nickname'', VStr ''An'')] = None"
      by (simp add: owner_check_def)
    have l: "patch_loop declarative_base [(''name'', VStr ''C''), (''nickname'', VStr ''An'')]
               (proj_a, False) = Inr (proj_a\<lparr>p_name := VStr ''C''\<rparr>, False)"
      by (simp add: hasattr_project_def setattr_project_def project_columns_def
            set_project_column_def declarative_base_def)
    have ch: "changed proj_a (proj_a\<lparr>p_name := VStr ''C''\<rparr>) = [(''name'', VStr ''C'')]"
      by (simp add: changed_def project_columns_def getattr_project_def proj_a_def)
    have m: "map (\<lambda>q. if p_id q = VInt 1 then q\<lparr>p_name := VStr ''C''\<rparr> else q) (projects campus)
               = [proj_a\<lparr>p_name := VStr ''C''\<rparr>, proj_b, proj_c]"
      by (simp add: campus_def proj_a_def proj_b_def proj_c_def)
    have u: "update_project_row campus (VInt 1) (changed proj_a (proj_a\<lparr>p_name := VStr ''C''\<rparr>))
               = Inr (campus\<lparr>projects := [proj_a\<lparr>p_name := VStr ''C''\<rparr>, proj_b, proj_c]\<rparr>)"
      unfolding ch using update_name_ok [of 1 campus "''C''"] by (simp add: m)
    have w: "write_project campus [(''name'', VStr ''C'')] proj_a = proj_a\<lparr>p_name := VStr ''C''\<rparr>"
      by (simp add: write_project_def set_project_column_def project_affinity_def)
    from patch_project_ok [OF g c l u] show ?thesis
      by (simp add: ch w)
  qed
qed

section \<open>The retry loop\<close>

lemma sleep_None: "sleep d = None \<longleftrightarrow> 0 \<le> d \<and> d * 1000000000 < 9223372036854775808"
  by (auto simp: sleep_def)

lemma failures_le: "failures n reachable \<le> n"
  using length_takeWhile_le [of "\<lambda>k. \<not> reachable k" "[0..<n]"] by (simp add: failures_def)

lemma failures_all: "(\<forall>k<n. \<not> reachable k) \<Longrightarrow> failures n reachable = n"
proof -
  assume "\<forall>k<n. \<not> reachable k"
  then have "\<forall>k \<in> set [0..<n]. \<not> reachable k" by simp
  then have "takeWhile (\<lambda>k. \<not> reachable k) [0..<n] = [0..<n]"
    by (rule takeWhile_eq_all_conv [THEN iffD2])
  then have "length (takeWhile (\<lambda>k. \<not> reachable k) [0..<n]) = length [0..<n]"
    by (rule arg_cong)
  then show ?thesis unfolding failures_def by (simp only: length_upt)
qed

lemma failures_before: "k < failures n reachable \<Longrightarrow> \<not> reachable k"
proof -
  let ?P = "\<lambda>k. \<not> reachable k"
  assume k: "k < failures n reachable"
  then have l: "k < length (takeWhile ?P [0..<n])" by (simp add: failures_def)
  with failures_le [of n reachable] have n: "k < n" by (simp add: failures_def)
  from l have m: "takeWhile ?P [0..<n] ! k \<in> set (takeWhile ?P [0..<n])"
    by (rule nth_mem)
  have "?P (takeWhile ?P [0..<n] ! k)"
    using set_takeWhileD [OF m] by (rule conjunct2)
  moreover have "takeWhile ?P [0..<n] ! k = [0..<n] ! k"
    using l by (rule takeWhile_nth)
  ultimately show ?thesis using n by simp
qed

lemma failures_cases: "failures n reachable < n \<or> (\<forall>k<n. \<not> reachable k)"
proof (cases "failures n reachable < n")
  case True
  then show ?thesis ..
next
  case False
  with failures_le [of n reachable] have "failures n reachable = n" by simp
  with failures_before [of _ n reachable] show ?thesis by auto
qed

lemma upt_step: "[a..<a + Suc j] = a # [Suc a..<Suc a + j]"
  by (simp add: upt_conv_Cons)

lemma retry_loop_trace:
  assumes s: "sleep delay = None"
  shows "retry_loop n delay reachable b
           = Inr (let a = attempts b;
                      j = length (takeWhile (\<lambda>k. \<not> reachable k) [a..<a + n]);
                      slept = events b @ concat (map (\<lambda>k. [Connect k, Sleep delay]) [a..<a + j])
                  in if j < n
                     then \<lparr>engine = Some (a + j), attempts = Suc (a + j),
                           events = slept @ [Connect (a + j)]\<rparr>
                     else if n = 0 then b
                     else \<lparr>engine = Some (a + n - 1), attempts = a + n, events = slept\<rparr>)"
proof (induction n arbitrary: b)
  case 0
  then show ?case by simp
next
  case (Suc n)
  let ?a = "attempts b"
  let ?P = "\<lambda>k. \<not> reachable k"
  note u = upt_step [of ?a n]
  show ?case
  proof (cases "reachable ?a")
    case True
    have l: "retry_loop (Suc n) delay reachable b
               = Inr \<lparr>engine = Some ?a, attempts = Suc ?a, events = events b @ [Connect ?a]\<rparr>"
      using True by (simp add: Let_def)
    have t: "length (takeWhile ?P [?a..<?a + Suc n]) = 0"
      unfolding u using True by simp
    show ?thesis
      unfolding l Let_def t by simp
  next
    case False
    let ?b2 = "\<lparr>engine = Some ?a, attempts = Suc ?a,
                 events = events b @ [Connect ?a, Sleep delay]\<rparr>"
    let ?j = "length (takeWhile ?P [Suc ?a..<Suc ?a + n])"
    have le: "?j \<le> n"
    proof -
      have "?j \<le> length [Suc ?a..<Suc ?a + n]"
        by (rule length_takeWhile_le)
      also have "\<dots> = n"
        by (simp only: length_upt add_diff_cancel_left')
      finally show ?thesis .
    qed
    note v = upt_step [of ?a ?j]
    have e: "b\<lparr>engine := Some ?a, attempts := Suc ?a,
               events := events b @ [Connect ?a, Sleep delay]\<rparr> = ?b2"
      by (cases b) simp
    have "retry_loop (Suc n) delay reachable b = retry_loop n delay reachable ?b2"
      using False s by (simp add: Let_def) (simp only: e)
    also have "\<dots> = Inr (if ?j < n
                     then \<lparr>engine = Some (Suc ?a + ?j), attempts = Suc (Suc ?a + ?j),
                           events = (events ?b2
                                      @ concat (map (\<lambda>k. [Connect k, Sleep delay])
                                                  [Suc ?a..<Suc ?a + ?j]))
                                    @ [Connect (Suc ?a + ?j)]\<rparr>
                     else if n = 0 then ?b2
                     else \<lparr>engine = Some (Suc ?a + n - 1), attempts = Suc ?a + n,
                           events = events ?b2
                                      @ concat (map (\<lambda>k. [Connect k, Sleep delay])
                                                  [Suc ?a..<Suc ?a + ?j])\<rparr>)"
      using Suc.IH [of ?b2] by (simp add: Let_def)
    finally have r: "retry_loop (Suc n) delay reachable b
       = Inr (if ?j < n
                     then \<lparr>engine = Some (Suc ?a + ?j), attempts = Suc (Suc ?a + ?j),
                           events = (events ?b2
                                      @ concat (map (\<lambda>k. [Connect k, Sleep delay])
                                                  [Suc ?a..<Suc ?a + ?j]))
                                    @ [Connect (Suc ?a + ?j)]\<rparr>
                     else if n = 0 then ?b2
                     else \<lparr>engine = Some (Suc ?a + n - 1), attempts = Suc ?a + n,
                           events = events ?b2
                                      @ concat (map (\<lambda>k. [Connect k, Sleep delay])
                                                  [Suc ?a..<Suc ?a + ?j])\<rparr>)" .
    have t: "length (takeWhile ?P [?a..<?a + Suc n]) = Suc ?j"
      unfolding u using False by simp
    show ?thesis
    proof (cases "?j < n")
      case True
      then show ?thesis
        unfolding r Let_def t v by simp
    next
      case False
      with le have e: "?j = n" by simp
      show ?thesis
        unfolding r Let_def t v using e by (cases "n = 0") simp_all
    qed
  qed
qed

lemma retry_loop_from_start:
  assumes s: "sleep delay = None"
  shows "retry_loop n delay reachable \<lparr>engine = None, attempts = 0, events = []\<rparr>
           = Inr (let j = failures n reachable;
                      slept = concat (map (\<lambda>k. [Connect k, Sleep delay]) [0..<j])
                  in if j < n
                     then \<lparr>engine = Some j, attempts = Suc j, events = slept @ [Connect j]\<rparr>
                     else if n = 0 then \<lparr>engine = None, attempts = 0, events = []\<rparr>
                     else \<lparr>engine = Some (n - 1), attempts = n, events = slept\<rparr>)"
  using retry_loop_trace [OF s, of n reachable "\<lparr>engine = None, attempts = 0, events = []\<rparr>"]
  by (simp add: failures_def Let_def)

lemma retry_loop_not_operational:
  "retry_loop n delay reachable b \<noteq> Inl OperationalError"
proof (induction n arbitrary: b)
  case 0
  then show ?case by simp
next
  case (Suc n)
  show ?case
  proof (cases "sleep delay")
    case None
    then show ?thesis using Suc.IH by (simp add: Let_def)
  next
    case (Some e)
    then have "e \<noteq> OperationalError" by (auto simp: sleep_def split: if_splits)
    with Some show ?thesis by (simp add: Let_def)
  qed
qed


text \<open>
  C3, as the specification states it, fails: with the defaults and a store that refuses
  the ten connections of the loop and accepts the next one, the module is imported
  without an error and the process starts.
\<close>

theorem retry_exhausted_no_abort_counterexample:
  "\<not> up_from 10 0 \<and> \<not> up_from 10 1 \<and> \<not> up_from 10 2 \<and> \<not> up_from 10 3 \<and> \<not> up_from 10 4
   \<and> \<not> up_from 10 5 \<and> \<not> up_from 10 6 \<and> \<not> up_from 10 7 \<and> \<not> up_from 10 8 \<and> \<not> up_from 10 9
   \<and> database_module None None (up_from 10)
       = Inr \<lparr>engine = Some 9, attempts = 10,
              events = [Connect 0, Sleep (3 / 2), Connect 1, Sleep (3 / 2), Connect 2, Sleep (3 / 2),
                        Connect 3, Sleep (3 / 2), Connect 4, Sleep (3 / 2), Connect 5, Sleep (3 / 2),
                        Connect 6, Sleep (3 / 2), Connect 7, Sleep (3 / 2), Connect 8, Sleep (3 / 2),
                        Connect 9, Sleep (3 / 2)]\<rparr>
   \<and> startup None None (up_from 10)
       = Inr \<lparr>engine = Some 9, attempts = 11,
              events = [Connect 0, Sleep (3 / 2), Connect 1, Sleep (3 / 2), Connect 2, Sleep (3 / 2),
                        Connect 3, Sleep (3 / 2), Connect 4, Sleep (3 / 2), Connect 5, Sleep (3 / 2),
                        Connect 6, Sleep (3 / 2), Connect 7, Sleep (3 / 2), Connect 8, Sleep (3 / 2),
                        Connect 9, Sleep (3 / 2), Connect 10]\<rparr>"
  by (simp add: startup_def database_module_def lifespan_def RETRIES_def DELAY_def up_from_def
        sleep_def eval_nat_numeral Let_def)

text \<open>
  C3, amended. The loop opens at most RETRIES connections (10 by default), one after the
  other, and stops at the first that succeeds. It sleeps DELAY seconds (1.5 by default)
  after every connection that fails, the last one too, when DELAY is one that the sleep
  accepts: not negative and below 2^63 nanoseconds. Whatever the store answers, the
  module then ends with the engine of its last connection; when every connection of the
  loop fails, it ends without an error all the same, and the start aborts exactly when
  the next connection, the one of the table creation in \<^verbatim>\<open>lifespan\<close>, fails as
  well. With a DELAY that the sleep refuses, the first connection that fails makes the
  sleep raise out of the loop. With RETRIES not positive, the loop makes no round and the
  module fails on the unbound engine. The module never propagates the connection error.
\<close>

theorem retry_exhausted_falls_through:
  "(sleep (DELAY delay_env) = None \<longrightarrow>
      (let n = nat (RETRIES retries_env); d = DELAY delay_env; j = failures n reachable;
           slept = concat (map (\<lambda>k. [Connect k, Sleep d]) [0..<j])
       in (j < n \<longrightarrow>
             database_module retries_env delay_env reachable
               = Inr \<lparr>engine = Some j, attempts = Suc j, events = slept @ [Connect j]\<rparr>)
          \<and> (0 < n \<and> (\<forall>k<n. \<not> reachable k) \<longrightarrow>
               database_module retries_env delay_env reachable
                 = Inr \<lparr>engine = Some (n - 1), attempts = n,
                        events = concat (map (\<lambda>k. [Connect k, Sleep d]) [0..<n])\<rparr>
               \<and> startup retries_env delay_env reachable
                   = (if reachable n
                      then Inr \<lparr>engine = Some (n - 1), attempts = Suc n,
                                events = concat (map (\<lambda>k. [Connect k, Sleep d]) [0..<n])
                                         @ [Connect n]\<rparr>
                      else Inl OperationalError))
          \<and> (j < n \<or> (\<forall>k<n. \<not> reachable k))))
   \<and> (sleep (DELAY delay_env) = Some e \<and> 0 < RETRIES retries_env \<and> \<not> reachable 0 \<longrightarrow>
        database_module retries_env delay_env reachable = Inl e)
   \<and> (RETRIES retries_env \<le> 0 \<longrightarrow>
        database_module retries_env delay_env reachable = Inl NameError)
   \<and> database_module retries_env delay_env reachable \<noteq> Inl OperationalError
   \<and> (sleep (DELAY delay_env) = None)
       = (0 \<le> DELAY delay_env \<and> DELAY delay_env * 1000000000 < 9223372036854775808)
   \<and> RETRIES None = 10 \<and> DELAY None = 3 / 2"
proof -
  let ?n = "nat (RETRIES retries_env)"
  let ?d = "DELAY delay_env"
  let ?j = "failures ?n reachable"
  let ?start = "\<lparr>engine = None, attempts = 0, events = []\<rparr>"
  let ?all = "concat (map (\<lambda>k. [Connect k, Sleep ?d]) [0..<?n])"
  have a: "database_module retries_env delay_env reachable
             = Inr \<lparr>engine = Some ?j, attempts = Suc ?j,
                    events = concat (map (\<lambda>k. [Connect k, Sleep ?d]) [0..<?j]) @ [Connect ?j]\<rparr>"
    if s: "sleep ?d = None" and j: "?j < ?n"
    using retry_loop_from_start [OF s, of ?n reachable] j
    by (simp add: database_module_def Let_def)
  have b: "database_module retries_env delay_env reachable
             = Inr \<lparr>engine = Some (?n - 1), attempts = ?n, events = ?all\<rparr>
           \<and> startup retries_env delay_env reachable
               = (if reachable ?n
                  then Inr \<lparr>engine = Some (?n - 1), attempts = Suc ?n,
                            events = ?all @ [Connect ?n]\<rparr>
                  else Inl OperationalError)"
    if s: "sleep ?d = None" and n: "0 < ?n" and f: "\<forall>k<?n. \<not> reachable k"
  proof -
    have j: "?j = ?n" using f by (rule failures_all)
    have m: "database_module retries_env delay_env reachable
               = Inr \<lparr>engine = Some (?n - 1), attempts = ?n, events = ?all\<rparr>"
      using retry_loop_from_start [OF s, of ?n reachable] n
      by (simp add: database_module_def Let_def j)
    show ?thesis
      unfolding startup_def m by (simp add: lifespan_def Let_def)
  qed
  have 1: "sleep ?d = None \<longrightarrow>
      (let n = ?n; d = ?d; j = failures n reachable;
           slept = concat (map (\<lambda>k. [Connect k, Sleep d]) [0..<j])
       in (j < n \<longrightarrow>
             database_module retries_env delay_env reachable
               = Inr \<lparr>engine = Some j, attempts = Suc j, events = slept @ [Connect j]\<rparr>)
          \<and> (0 < n \<and> (\<forall>k<n. \<not> reachable k) \<longrightarrow>
               database_module retries_env delay_env reachable
                 = Inr \<lparr>engine = Some (n - 1), attempts = n,
                        events = concat (map (\<lambda>k. [Connect k, Sleep d]) [0..<n])\<rparr>
               \<and> startup retries_env delay_env reachable
                   = (if reachable n
                      then Inr \<lparr>engine = Some (n - 1), attempts = Suc n,
                                events = concat (map (\<lambda>k. [Connect k, Sleep d]) [0..<n])
                                         @ [Connect n]\<rparr>
                      else Inl OperationalError))
          \<and> (j < n \<or> (\<forall>k<n. \<not> reachable k)))"
    unfolding Let_def using a b failures_cases [of ?n reachable] by blast
  have 2: "sleep ?d = Some e \<and> 0 < RETRIES retries_env \<and> \<not> reachable 0 \<longrightarrow>
        database_module retries_env delay_env reachable = Inl e"
  proof (intro impI, elim conjE)
    assume s: "sleep ?d = Some e" and r: "0 < RETRIES retries_env" and u: "\<not> reachable 0"
    from r obtain m where m: "?n = Suc m" by (cases ?n) auto
    show "database_module retries_env delay_env reachable = Inl e"
      using s u by (simp add: database_module_def m Let_def)
  qed
  have 3: "RETRIES retries_env \<le> 0 \<longrightarrow>
        database_module retries_env delay_env reachable = Inl NameError"
    by (simp add: database_module_def)
  have 4: "database_module retries_env delay_env reachable \<noteq> Inl OperationalError"
    using retry_loop_not_operational [of ?n ?d reachable ?start]
    by (auto simp: database_module_def split: sum.splits option.splits)
  have 5: "(sleep ?d = None) = (0 \<le> ?d \<and> ?d * 1000000000 < 9223372036854775808)"
    by (rule sleep_None)
  have 6: "RETRIES None = 10" "DELAY None = 3 / 2"
    by (simp_all add: RETRIES_def DELAY_def)
  from 1 2 3 4 5 6 show ?thesis
    by (intro conjI)
qed

theorem retry_exhausted_falls_through_witness:
  "sleep (DELAY None) = None \<and> 0 < nat (RETRIES (Some 2)) \<and> \<not> up_from 2 0 \<and> \<not> up_from 2 1
   \<and> database_module (Some 2) None (up_from 2)
       = Inr \<lparr>engine = Some 1, attempts = 2,
              events = [Connect 0, Sleep (3 / 2), Connect 1, Sleep (3 / 2)]\<rparr>
   \<and> startup (Some 2) None (up_from 2)
       = Inr \<lparr>engine = Some 1, attempts = 3,
              events = [Connect 0, Sleep (3 / 2), Connect 1, Sleep (3 / 2), Connect 2]\<rparr>
   \<and> startup (Some 2) None (up_from 3) = Inl OperationalError
   \<and> failures (nat (RETRIES (Some 3))) (up_from 1) = 1
   \<and> database_module (Some 3) None (up_from 1)
       = Inr \<lparr>engine = Some 1, attempts = 2, events = [Connect 0, Sleep (3 / 2), Connect 1]\<rparr>
   \<and> sleep (DELAY (Some 10000000000)) = Some OverflowError
   \<and> database_module None (Some 10000000000) (up_from 1) = Inl OverflowError
   \<and> database_module (Some 0) None (up_from 0) = Inl NameError"
proof -
  have s: "sleep (DELAY None) = None"
    by (simp add: sleep_def DELAY_def)
  have n: "0 < nat (RETRIES (Some 2))" "nat (RETRIES (Some 2)) = 2" "nat (RETRIES (Some 3)) = 3"
    by (simp_all add: RETRIES_def)
  have c: "\<not> up_from 2 0" "\<not> up_from 2 1" "up_from 2 2" "\<not> up_from 3 2" "\<not> up_from 1 0"
    by (simp_all add: up_from_def)
  have f2: "\<forall>k<nat (RETRIES (Some 2)). \<not> up_from 2 k"
    "\<forall>k<nat (RETRIES (Some 2)). \<not> up_from 3 k"
    by (simp_all add: RETRIES_def up_from_def)
  have e: "[0..<2] = [0, Suc 0]" "[0..<3] = [0, Suc 0, 2]"
    by (simp_all add: upt_conv_Cons)
  have j: "failures (nat (RETRIES (Some 3))) (up_from 1) = 1"
    by (simp add: failures_def n e up_from_def)
  note t = retry_exhausted_falls_through
             [where retries_env = "Some 2" and delay_env = None and reachable = "up_from 2",
              THEN conjunct1, THEN mp, OF s, unfolded Let_def, THEN conjunct2, THEN conjunct1,
              THEN mp, OF conjI [OF n(1) f2(1)]]
  note u = retry_exhausted_falls_through
             [where retries_env = "Some 2" and delay_env = None and reachable = "up_from 3",
              THEN conjunct1, THEN mp, OF s, unfolded Let_def, THEN conjunct2, THEN conjunct1,
              THEN mp, OF conjI [OF n(1) f2(2)], THEN conjunct2]
  have j3: "failures (nat (RETRIES (Some 3))) (up_from 1) < nat (RETRIES (Some 3))"
    using j n(3) by simp
  note v = retry_exhausted_falls_through
             [where retries_env = "Some 3" and delay_env = None and reachable = "up_from 1",
              THEN conjunct1, THEN mp, OF s, unfolded Let_def, THEN conjunct1, THEN mp, OF j3]
  have o: "sleep (DELAY (Some 10000000000)) = Some OverflowError"
    by (simp add: sleep_def DELAY_def)
  have o': "sleep (DELAY (Some 10000000000)) = Some OverflowError \<and> 0 < RETRIES None
              \<and> \<not> up_from 1 0"
    using o c by (simp add: RETRIES_def)
  note w = retry_exhausted_falls_through
             [where retries_env = None and delay_env = "Some 10000000000"
                and reachable = "up_from 1" and e = OverflowError,
              THEN conjunct2, THEN conjunct1, THEN mp, OF o']
  have z: "RETRIES (Some 0) \<le> 0" by (simp add: RETRIES_def)
  note x = retry_exhausted_falls_through
             [where retries_env = "Some 0" and delay_env = None and reachable = "up_from 0",
              THEN conjunct2, THEN conjunct2, THEN conjunct1, THEN mp, OF z]
  have 1: "database_module (Some 2) None (up_from 2)
       = Inr \<lparr>engine = Some 1, attempts = 2,
              events = [Connect 0, Sleep (3 / 2), Connect 1, Sleep (3 / 2)]\<rparr>"
    using t [THEN conjunct1] by (simp add: n DELAY_def e)
  have 2: "startup (Some 2) None (up_from 2)
       = Inr \<lparr>engine = Some 1, attempts = 3,
              events = [Connect 0, Sleep (3 / 2), Connect 1, Sleep (3 / 2), Connect 2]\<rparr>"
    using t [THEN conjunct2] c by (simp add: n DELAY_def e)
  have 3: "startup (Some 2) None (up_from 3) = Inl OperationalError"
    using u c by (simp add: n)
  have 4: "database_module (Some 3) None (up_from 1)
       = Inr \<lparr>engine = Some 1, attempts = 2, events = [Connect 0, Sleep (3 / 2), Connect 1]\<rparr>"
    using v [unfolded j] by (simp add: DELAY_def)
  from s n(1) c(1,2) 1 2 3 j 4 o w x show ?thesis
    by (intro conjI)
qed

end
